theory Spec2Isabelle
  imports Main
begin

section \<open>Strings\<close>

text \<open>
  JavaScript strings are modelled as \<^typ>\<open>string\<close> restricted to ASCII: the three
  string methods the channel store uses (\<^verbatim>\<open>trim\<close>, \<^verbatim>\<open>toLowerCase\<close>,
  \<^verbatim>\<open>replace(/\s+/g, '-')\<close>) are given with their meaning on ASCII characters. The
  ASCII characters matched by \<^verbatim>\<open>\s\<close> (and stripped by \<^verbatim>\<open>trim\<close>) are tab, line feed,
  vertical tab, form feed, carriage return and space.
\<close>

definition isWhitespace :: "char \<Rightarrow> bool" where
  "isWhitespace c = (c \<in> set [CHR 0x09, CHR 0x0A, CHR 0x0B, CHR 0x0C, CHR 0x0D, CHR '' ''])"

text \<open>
  \<^verbatim>\<open>toLowerCase\<close> on one ASCII character: the letters \<^verbatim>\<open>A\<close> to \<^verbatim>\<open>Z\<close> (codes 65 to 90) move
  up by 32, which sets the bit of weight 32 (it is clear in that range); every other character
  stays.
\<close>

definition toLowerCase_char :: "char \<Rightarrow> char" where
  "toLowerCase_char c =
     (let n = (of_char c :: nat) in
      if 65 \<le> n \<and> n \<le> 90
      then (case c of Char b0 b1 b2 b3 b4 b5 b6 b7 \<Rightarrow> Char b0 b1 b2 b3 b4 True b6 b7)
      else c)"

definition toLowerCase :: "string \<Rightarrow> string" where
  "toLowerCase s = map toLowerCase_char s"

text \<open>\<^verbatim>\<open>s.trim()\<close>: whitespace is stripped from both ends.\<close>

definition trim :: "string \<Rightarrow> string" where
  "trim s = rev (dropWhile isWhitespace (rev (dropWhile isWhitespace s)))"

text \<open>
  \<^verbatim>\<open>s.replace(/\s+/g, '-')\<close>: scanning from the left, every maximal run of whitespace is
  replaced by one hyphen.
\<close>

function replace_ws :: "string \<Rightarrow> string" where
  "replace_ws [] = []"
| "replace_ws (c # cs) =
     (if isWhitespace c then CHR ''-'' # replace_ws (dropWhile isWhitespace cs)
      else c # replace_ws cs)"
  by pat_completeness auto
termination
  by (relation "measure length") (auto simp: le_imp_less_Suc length_dropWhile_le)

text \<open>Decimal digits of a number, as a template literal prints it.\<close>

fun string_of_nat :: "nat \<Rightarrow> string" where
  "string_of_nat n =
     (if n < 10 then [''0123456789'' ! n]
      else string_of_nat (n div 10) @ [''0123456789'' ! (n mod 10)])"

declare string_of_nat.simps [simp del]

section \<open>JSON values and browser storage\<close>

text \<open>
  The values that \<^verbatim>\<open>JSON.parse\<close> yields and \<^verbatim>\<open>JSON.stringify\<close> accepts. An object is the
  list of its properties in insertion order (a parsed object has every key once; of a list
  that repeats a key the first entry is the one read); numbers are the integers (the only
  numbers the program itself produces are integer defaults).
\<close>

datatype json =
    JNull
  | JBool bool
  | JNumber int
  | JString string
  | JArray "json list"
  | JObject "(string \<times> json) list"

text \<open>
  \<^verbatim>\<open>localStorage\<close> maps keys to JSON texts. The model keeps, for each key, the JSON value
  that the stored text denotes: the text layer of \<^verbatim>\<open>JSON.stringify\<close> and \<^verbatim>\<open>JSON.parse\<close> belongs
  to the platform, what the program decides is which value is written under which key and
  how a value read back is used. \<^verbatim>\<open>getItem\<close> of a key never written is \<^verbatim>\<open>null\<close>, here
  \<^const>\<open>None\<close>.
\<close>

type_synonym storage = "string \<rightharpoonup> json"

section \<open>Route handlers\<close>

subsection \<open>Requests, responses and the gateway\<close>

text \<open>
  Reading a property of a parsed body, \<^const>\<open>None\<close> for \<^verbatim>\<open>undefined\<close>. Of a value that is
  not an object (a number, a string, a boolean, an array) the properties the routes read are
  all \<^verbatim>\<open>undefined\<close>. Reading a property of \<^verbatim>\<open>null\<close> throws: the routes below have that case
  apart.
\<close>

fun property :: "json \<Rightarrow> string \<Rightarrow> json option" where
  "property (JObject ps) k = map_of ps k"
| "property _ k = None"

text \<open>What \<^verbatim>\<open>if (x)\<close> and \<^verbatim>\<open>!x\<close> test.\<close>

fun truthy :: "json option \<Rightarrow> bool" where
  "truthy None = False"
| "truthy (Some JNull) = False"
| "truthy (Some (JBool b)) = b"
| "truthy (Some (JNumber n)) = (n \<noteq> 0)"
| "truthy (Some (JString s)) = (s \<noteq> [])"
| "truthy (Some (JArray js)) = True"
| "truthy (Some (JObject ps)) = True"

text \<open>A destructuring default, \<^verbatim>\<open>{ x = d } = body\<close>: it applies to \<^verbatim>\<open>undefined\<close> only.\<close>

definition with_default :: "json option \<Rightarrow> json \<Rightarrow> json option" where
  "with_default v d = (case v of None \<Rightarrow> Some d | Some x \<Rightarrow> Some x)"

text \<open>
  \<^verbatim>\<open>JSON.stringify({ a, b, ... })\<close> of an object literal: the properties in the order
  written, those that are \<^verbatim>\<open>undefined\<close> left out.
\<close>

definition stringify_object :: "(string \<times> json option) list \<Rightarrow> json" where
  "stringify_object ps = JObject (List.map_filter (\<lambda>(k, v). map_option (Pair k) v) ps)"

text \<open>
  A request to the gateway as \<^verbatim>\<open>fetch\<close> receives it: the URL text up to the query, the
  entries of the \<^verbatim>\<open>URLSearchParams\<close> appended to it (their percent-encoding is the
  platform's), and the options.
\<close>

record gateway_request =
  gw_url :: string
  gw_query :: "(string \<times> string) list"
  gw_method :: string
  gw_cache :: "string option"
  gw_headers :: "(string \<times> string) list"
  gw_body :: "json option"

text \<open>
  What \<^verbatim>\<open>fetch\<close> yields: it rejects, or resolves to a response with a status and a body;
  the body is \<^const>\<open>None\<close> when it is not JSON, and then \<^verbatim>\<open>res.json()\<close> rejects.
\<close>

datatype gateway_result = NetworkError | Response nat "json option"

type_synonym gateway = "gateway_request \<Rightarrow> gateway_result"

definition ok :: "nat \<Rightarrow> bool" where
  "ok st = (200 \<le> st \<and> st \<le> 299)"

record http_response =
  res_status :: nat
  res_body :: json

text \<open>
  \<^verbatim>\<open>NextResponse.json(body, { status })\<close> builds the response through the platform's
  \<^verbatim>\<open>Response.json\<close>, which throws for a status outside 200 to 599 and for a status that
  allows no body (204, 205, 304); \<^const>\<open>None\<close> is that exception.
\<close>

definition NextResponse_json :: "json \<Rightarrow> nat \<Rightarrow> http_response option" where
  "NextResponse_json b st =
     (if st < 200 \<or> 599 < st \<or> st \<in> {204, 205, 304} then None
      else Some \<lparr>res_status = st, res_body = b\<rparr>)"

definition error_body :: "string \<Rightarrow> json" where
  "error_body msg = JObject [(''error'', JString msg)]"

text \<open>Module constants, read from the environment with their fallbacks.\<close>

record config =
  GATEWAY_URL :: string
  GATEWAY_TOKEN :: string

definition config_of_env :: "string option \<Rightarrow> string option \<Rightarrow> config" where
  "config_of_env env_url env_token =
     \<lparr>GATEWAY_URL = (case env_url of None \<Rightarrow> ''http://localhost:6820''
                      | Some u \<Rightarrow> if u = [] then ''http://localhost:6820'' else u),
      GATEWAY_TOKEN = (case env_token of None \<Rightarrow> [] | Some t \<Rightarrow> t)\<rparr>"

definition getHeaders :: "config \<Rightarrow> (string \<times> string) list" where
  "getHeaders cfg =
     [(''Content-Type'', ''application/json'')]
     @ (if GATEWAY_TOKEN cfg \<noteq> [] then [(''Authorization'', ''Bearer '' @ GATEWAY_TOKEN cfg)]
        else [])"

text \<open>
  A handler yields its response and the requests it sent to the gateway, in order. The body
  of a handler's \<^verbatim>\<open>try\<close> yields \<^const>\<open>None\<close> for the response when an exception is thrown,
  and the \<^verbatim>\<open>catch\<close> turns that into its status 500 response (what the handlers write to
  the console is left out).
\<close>

type_synonym outcome = "http_response \<times> gateway_request list"

definition try_catch :: "string \<Rightarrow> http_response option \<times> gateway_request list \<Rightarrow> outcome" where
  "try_catch msg r =
     (case fst r of
        Some res \<Rightarrow> (res, snd r)
      | None \<Rightarrow> (\<lparr>res_status = 500, res_body = error_body msg\<rparr>, snd r))"

subsection \<open>The sessions proxy\<close>

text \<open>\<^verbatim>\<open>searchParams.get(k)\<close>: the first value of the parameter, \<^const>\<open>None\<close> for \<^verbatim>\<open>null\<close>.\<close>

definition get_param :: "(string \<times> string) list \<Rightarrow> string \<Rightarrow> string option" where
  "get_param searchParams k = map_of searchParams k"

text \<open>\<^verbatim>\<open>searchParams.get(k) || d\<close>: the fallback replaces \<^verbatim>\<open>null\<close> and the empty string.\<close>

definition get_param_or :: "(string \<times> string) list \<Rightarrow> string \<Rightarrow> string \<Rightarrow> string" where
  "get_param_or searchParams k d =
     (case get_param searchParams k of None \<Rightarrow> d | Some v \<Rightarrow> if v = [] then d else v)"

definition sessions_GET ::
  "config \<Rightarrow> gateway \<Rightarrow> string \<Rightarrow> (string \<times> string) list \<Rightarrow> outcome" where
  "sessions_GET cfg fetch action searchParams =
     try_catch ''Request failed''
      (if action = ''list'' then
         (let kinds = get_param searchParams ''kinds'';
              activeMinutes = get_param_or searchParams ''activeMinutes'' ''60'';
              limit = get_param_or searchParams ''limit'' ''50'';
              messageLimit = get_param_or searchParams ''messageLimit'' ''3'';
              query = [(''activeMinutes'', activeMinutes), (''limit'', limit),
                       (''messageLimit'', messageLimit)]
                      @ (case kinds of None \<Rightarrow> []
                         | Some k \<Rightarrow> if k = [] then [] else [(''kinds'', k)]);
              req = \<lparr>gw_url = GATEWAY_URL cfg @ ''/api/sessions?'', gw_query = query,
                     gw_method = ''GET'', gw_cache = Some ''no-store'',
                     gw_headers = getHeaders cfg, gw_body = None\<rparr>
          in case fetch req of
               NetworkError \<Rightarrow> (None, [req])
             | Response st b \<Rightarrow>
                 if \<not> ok st then (NextResponse_json (JObject [(''sessions'', JArray [])]) 200, [req])
                 else (case b of
                         None \<Rightarrow> (None, [req])
                       | Some data \<Rightarrow> (NextResponse_json data 200, [req])))
       else if action = ''history'' then
         (case get_param searchParams ''sessionKey'' of
            None \<Rightarrow> (NextResponse_json (error_body ''sessionKey required'') 400, [])
          | Some sessionKey \<Rightarrow>
              if sessionKey = [] then
                (NextResponse_json (error_body ''sessionKey required'') 400, [])
              else
                let limit = get_param_or searchParams ''limit'' ''50'';
                    includeTools = (get_param searchParams ''includeTools'' = Some ''true'');
                    query = [(''sessionKey'', sessionKey), (''limit'', limit)]
                            @ (if includeTools then [(''includeTools'', ''true'')] else []);
                    req = \<lparr>gw_url = GATEWAY_URL cfg @ ''/api/sessions/history?'',
                           gw_query = query, gw_method = ''GET'', gw_cache = Some ''no-store'',
                           gw_headers = getHeaders cfg, gw_body = None\<rparr>
                in case fetch req of
                     NetworkError \<Rightarrow> (None, [req])
                   | Response st b \<Rightarrow>
                       if \<not> ok st
                       then (NextResponse_json (JObject [(''messages'', JArray [])]) 200, [req])
                       else (case b of
                               None \<Rightarrow> (None, [req])
                             | Some data \<Rightarrow> (NextResponse_json data 200, [req])))
       else if action = ''status'' then
         (let sessionKey = get_param searchParams ''sessionKey'';
              query = (case sessionKey of None \<Rightarrow> []
                       | Some k \<Rightarrow> if k = [] then [] else ''?sessionKey='' @ k);
              req = \<lparr>gw_url = GATEWAY_URL cfg @ ''/api/session/status'' @ query, gw_query = [],
                     gw_method = ''GET'', gw_cache = Some ''no-store'',
                     gw_headers = getHeaders cfg, gw_body = None\<rparr>
          in case fetch req of
               NetworkError \<Rightarrow> (None, [req])
             | Response st b \<Rightarrow>
                 if \<not> ok st then (NextResponse_json (JObject []) 200, [req])
                 else (case b of
                         None \<Rightarrow> (None, [req])
                       | Some data \<Rightarrow> (NextResponse_json data 200, [req])))
       else (NextResponse_json (error_body ''Unknown action'') 400, []))"

definition sessions_POST :: "config \<Rightarrow> gateway \<Rightarrow> string \<Rightarrow> json option \<Rightarrow> outcome" where
  "sessions_POST cfg fetch action request_json =
     try_catch ''Request failed''
      (case request_json of
         None \<Rightarrow> (None, [])
       | Some body \<Rightarrow>
           if action = ''send'' then
             (if body = JNull then (None, [])
              else
                let sessionKey = property body ''sessionKey'';
                    agentId = property body ''agentId'';
                    label = property body ''label'';
                    message = property body ''message'';
                    timeoutSeconds = with_default (property body ''timeoutSeconds'') (JNumber 120)
                in
                  if \<not> truthy message
                  then (NextResponse_json (error_body ''message required'') 400, [])
                  else
                    let req = \<lparr>gw_url = GATEWAY_URL cfg @ ''/api/sessions/send'', gw_query = [],
                               gw_method = ''POST'', gw_cache = None,
                               gw_headers = getHeaders cfg,
                               gw_body = Some (stringify_object
                                 [(''sessionKey'', sessionKey), (''agentId'', agentId),
                                  (''label'', label), (''message'', message),
                                  (''timeoutSeconds'', timeoutSeconds)])\<rparr>
                    in case fetch req of
                         NetworkError \<Rightarrow> (None, [req])
                       | Response st b \<Rightarrow>
                           if \<not> ok st
                           then (NextResponse_json (error_body ''Send failed'') st, [req])
                           else (case b of
                                   None \<Rightarrow> (None, [req])
                                 | Some data \<Rightarrow> (NextResponse_json data 200, [req])))
           else if action = ''spawn'' then
             (if body = JNull then (None, [])
              else
                let task = property body ''task'';
                    agentId = property body ''agentId'';
                    label = property body ''label'';
                    model = property body ''model'';
                    thinking = property body ''thinking'';
                    runTimeoutSeconds =
                      with_default (property body ''runTimeoutSeconds'') (JNumber 300);
                    cleanup = with_default (property body ''cleanup'') (JString ''keep'')
                in
                  if \<not> truthy task
                  then (NextResponse_json (error_body ''task required'') 400, [])
                  else
                    let req = \<lparr>gw_url = GATEWAY_URL cfg @ ''/api/sessions/spawn'', gw_query = [],
                               gw_method = ''POST'', gw_cache = None,
                               gw_headers = getHeaders cfg,
                               gw_body = Some (stringify_object
                                 [(''task'', task), (''agentId'', agentId), (''label'', label),
                                  (''model'', model), (''thinking'', thinking),
                                  (''runTimeoutSeconds'', runTimeoutSeconds),
                                  (''cleanup'', cleanup)])\<rparr>
                    in case fetch req of
                         NetworkError \<Rightarrow> (None, [req])
                       | Response st b \<Rightarrow>
                           if \<not> ok st
                           then (NextResponse_json (error_body ''Spawn failed'') st, [req])
                           else (case b of
                                   None \<Rightarrow> (None, [req])
                                 | Some data \<Rightarrow> (NextResponse_json data 200, [req])))
           else (NextResponse_json (error_body ''Unknown action'') 400, []))"

subsection \<open>The direct send route\<close>

definition send_POST :: "config \<Rightarrow> gateway \<Rightarrow> json option \<Rightarrow> outcome" where
  "send_POST cfg fetch request_json =
     try_catch ''Failed to send message''
      (case request_json of
         None \<Rightarrow> (None, [])
       | Some body \<Rightarrow>
           if body = JNull then (None, [])
           else
             let agentId = property body ''agentId'';
                 message = property body ''message'';
                 sessionKey = property body ''sessionKey'';
                 timeoutSeconds = with_default (property body ''timeoutSeconds'') (JNumber 120)
             in
               if \<not> truthy message
               then (NextResponse_json (error_body ''Message is required'') 400, [])
               else if \<not> truthy agentId \<and> \<not> truthy sessionKey
               then (NextResponse_json
                       (error_body ''Either agentId or sessionKey is required'') 400, [])
               else
                 let headers = [(''Content-Type'', ''application/json'')]
                       @ (if GATEWAY_TOKEN cfg \<noteq> []
                          then [(''Authorization'', ''Bearer '' @ GATEWAY_TOKEN cfg)] else []);
                     req = \<lparr>gw_url = GATEWAY_URL cfg @ ''/api/sessions/send'', gw_query = [],
                            gw_method = ''POST'', gw_cache = None, gw_headers = headers,
                            gw_body = Some (stringify_object
                              [(''agentId'', agentId), (''sessionKey'', sessionKey),
                               (''message'', message), (''timeoutSeconds'', timeoutSeconds)])\<rparr>
                 in case fetch req of
                      NetworkError \<Rightarrow> (None, [req])
                    | Response st b \<Rightarrow>
                        if \<not> ok st
                        then (NextResponse_json
                                (error_body (''Gateway error: '' @ string_of_nat st)) st, [req])
                        else (case b of
                                None \<Rightarrow> (None, [req])
                              | Some data \<Rightarrow> (NextResponse_json data 200, [req])))"

section \<open>Channels and messages\<close>

text \<open>
  \<^verbatim>\<open>interface Channel\<close> of the channel list component; an optional property that is
  \<^verbatim>\<open>undefined\<close> is \<^const>\<open>None\<close>.
\<close>

record channel =
  ch_id :: string
  ch_name :: string
  ch_description :: "string option"
  ch_sessionKey :: "string option"
  ch_lastMessage :: "string option"
  ch_lastActivity :: "string option"
  ch_unread :: "int option"

datatype role = User | Agent | System

record message =
  msg_id :: string
  msg_role :: role
  msg_content :: string
  msg_time :: string
  msg_channelId :: string

text \<open>
  \<^verbatim>\<open>JSON.stringify\<close> of a channel, a message and arrays of them: a property whose value is
  \<^verbatim>\<open>undefined\<close> is left out. (The order of the properties inside one object is not
  observable by the program and is fixed here to the order of the interface.)
\<close>

definition opt_prop :: "string \<Rightarrow> ('a \<Rightarrow> json) \<Rightarrow> 'a option \<Rightarrow> (string \<times> json) list" where
  "opt_prop k f v = (case v of None \<Rightarrow> [] | Some x \<Rightarrow> [(k, f x)])"

definition stringify_channel :: "channel \<Rightarrow> json" where
  "stringify_channel c =
     JObject ([(''id'', JString (ch_id c)), (''name'', JString (ch_name c))]
       @ opt_prop ''description'' JString (ch_description c)
       @ opt_prop ''sessionKey'' JString (ch_sessionKey c)
       @ opt_prop ''lastMessage'' JString (ch_lastMessage c)
       @ opt_prop ''lastActivity'' JString (ch_lastActivity c)
       @ opt_prop ''unread'' JNumber (ch_unread c))"

definition stringify_channels :: "channel list \<Rightarrow> json" where
  "stringify_channels cs = JArray (map stringify_channel cs)"

definition stringify_role :: "role \<Rightarrow> json" where
  "stringify_role r =
     JString (case r of User \<Rightarrow> ''user'' | Agent \<Rightarrow> ''agent'' | System \<Rightarrow> ''system'')"

definition stringify_message :: "message \<Rightarrow> json" where
  "stringify_message m =
     JObject [(''id'', JString (msg_id m)), (''role'', stringify_role (msg_role m)),
              (''content'', JString (msg_content m)), (''time'', JString (msg_time m)),
              (''channelId'', JString (msg_channelId m))]"

definition stringify_messages :: "message list \<Rightarrow> json" where
  "stringify_messages ms = JArray (map stringify_message ms)"

text \<open>
  Reading a stored value back as \<^verbatim>\<open>Channel[]\<close> or \<^verbatim>\<open>Message[]\<close>. The source does not check
  what \<^verbatim>\<open>JSON.parse\<close> returns; the model yields \<^const>\<open>None\<close> for a value that is not an array
  of objects of the interface, so that nothing is claimed about such storage contents.
\<close>

definition req_string :: "(string \<times> json) list \<Rightarrow> string \<Rightarrow> string option" where
  "req_string ps k = (case map_of ps k of Some (JString s) \<Rightarrow> Some s | _ \<Rightarrow> None)"

definition opt_string :: "(string \<times> json) list \<Rightarrow> string \<Rightarrow> string option option" where
  "opt_string ps k =
     (case map_of ps k of None \<Rightarrow> Some None | Some (JString s) \<Rightarrow> Some (Some s) | _ \<Rightarrow> None)"

definition opt_number :: "(string \<times> json) list \<Rightarrow> string \<Rightarrow> int option option" where
  "opt_number ps k =
     (case map_of ps k of None \<Rightarrow> Some None | Some (JNumber n) \<Rightarrow> Some (Some n) | _ \<Rightarrow> None)"

definition parse_channel :: "json \<Rightarrow> channel option" where
  "parse_channel j =
     (case j of
        JObject ps \<Rightarrow>
          (case (req_string ps ''id'', req_string ps ''name'', opt_string ps ''description'',
                 opt_string ps ''sessionKey'', opt_string ps ''lastMessage'',
                 opt_string ps ''lastActivity'', opt_number ps ''unread'') of
             (Some i, Some n, Some d, Some k, Some lm, Some la, Some u) \<Rightarrow>
               Some \<lparr>ch_id = i, ch_name = n, ch_description = d, ch_sessionKey = k,
                     ch_lastMessage = lm, ch_lastActivity = la, ch_unread = u\<rparr>
           | _ \<Rightarrow> None)
      | _ \<Rightarrow> None)"

definition parse_role :: "(string \<times> json) list \<Rightarrow> role option" where
  "parse_role ps =
     (case req_string ps ''role'' of
        Some s \<Rightarrow> (if s = ''user'' then Some User else if s = ''agent'' then Some Agent
                   else if s = ''system'' then Some System else None)
      | None \<Rightarrow> None)"

definition parse_message :: "json \<Rightarrow> message option" where
  "parse_message j =
     (case j of
        JObject ps \<Rightarrow>
          (case (req_string ps ''id'', parse_role ps, req_string ps ''content'',
                 req_string ps ''time'', req_string ps ''channelId'') of
             (Some i, Some r, Some c, Some t, Some ci) \<Rightarrow>
               Some \<lparr>msg_id = i, msg_role = r, msg_content = c, msg_time = t,
                     msg_channelId = ci\<rparr>
           | _ \<Rightarrow> None)
      | _ \<Rightarrow> None)"

fun parse_array :: "(json \<Rightarrow> 'a option) \<Rightarrow> json list \<Rightarrow> 'a list option" where
  "parse_array f [] = Some []"
| "parse_array f (j # js) =
     (case f j of
        None \<Rightarrow> None
      | Some x \<Rightarrow> (case parse_array f js of None \<Rightarrow> None | Some xs \<Rightarrow> Some (x # xs)))"

definition parse_channels :: "json \<Rightarrow> channel list option" where
  "parse_channels j = (case j of JArray js \<Rightarrow> parse_array parse_channel js | _ \<Rightarrow> None)"

definition parse_messages :: "json \<Rightarrow> message list option" where
  "parse_messages j = (case j of JArray js \<Rightarrow> parse_array parse_message js | _ \<Rightarrow> None)"

section \<open>The state of the workspace page\<close>

text \<open>
  The React state of the channel list component (\<open>channels\<close>) and of the page
  (\<open>selectedChannel\<close>, \<open>messages\<close>, \<open>sending\<close>), with the browser's \<^verbatim>\<open>localStorage\<close>.
  An event handler is a function on this state that also runs the effects its state change
  triggers.
\<close>

record app_state =
  channels :: "channel list"
  selectedChannel :: "channel option"
  messages :: "string \<rightharpoonup> message list"
  sending :: bool
  localStorage :: storage

definition channels_key :: "string \<Rightarrow> string" where
  "channels_key workspaceId = ''clawhub_channels_'' @ workspaceId"

definition messages_key :: "string \<Rightarrow> string" where
  "messages_key channelId = ''clawhub_messages_'' @ channelId"

text \<open>The state of a freshly loaded page over a given browser storage.\<close>

definition initial_state :: "storage \<Rightarrow> app_state" where
  "initial_state st =
     \<lparr>channels = [], selectedChannel = None, messages = Map.empty, sending = False,
      localStorage = st\<rparr>"

subsection \<open>Channel store\<close>

text \<open>\<^verbatim>\<open>DEFAULT_CHANNELS\<close>: name and description of the channels of a new workspace.\<close>

definition DEFAULT_CHANNELS :: "(string \<times> string) list" where
  "DEFAULT_CHANNELS =
     [(''general'', ''General discussion''),
      (''tasks'', ''Task tracking and todos''),
      (''research'', ''Research notes and findings''),
      (''ideas'', ''Brainstorming and ideas'')]"

definition default_channels :: "string \<Rightarrow> channel list" where
  "default_channels workspaceId =
     map (\<lambda>(n, d). \<lparr>ch_id = workspaceId @ ''-'' @ n, ch_name = n, ch_description = Some d,
                    ch_sessionKey = None, ch_lastMessage = None, ch_lastActivity = None,
                    ch_unread = None\<rparr>)
       DEFAULT_CHANNELS"

text \<open>The effect "save channels when they change": nothing is written for an empty list.\<close>

definition save_channels_effect :: "string \<Rightarrow> app_state \<Rightarrow> app_state" where
  "save_channels_effect workspaceId s =
     (if length (channels s) > 0
      then s\<lparr>localStorage :=
               (localStorage s)(channels_key workspaceId \<mapsto> stringify_channels (channels s))\<rparr>
      else s)"

text \<open>
  The effect "load channels" that runs when the component mounts: stored channels are taken
  as they are, otherwise the defaults are built and written at once. \<^const>\<open>None\<close>: the stored
  value is not a channel array.
\<close>

definition load_channels_effect :: "string \<Rightarrow> app_state \<Rightarrow> app_state option" where
  "load_channels_effect workspaceId s =
     (case localStorage s (channels_key workspaceId) of
        Some stored \<Rightarrow>
          (case parse_channels stored of
             None \<Rightarrow> None
           | Some cs \<Rightarrow> Some (s\<lparr>channels := cs\<rparr>))
      | None \<Rightarrow>
          (let defaults = default_channels workspaceId
           in Some (s\<lparr>channels := defaults,
                      localStorage :=
                        (localStorage s)(channels_key workspaceId \<mapsto> stringify_channels defaults)\<rparr>)))"

text \<open>
  Mounting the channel list: the load effect, then the save effect of the render that shows
  the loaded list.
\<close>

definition mount_channels :: "string \<Rightarrow> app_state \<Rightarrow> app_state option" where
  "mount_channels workspaceId s =
     map_option (save_channels_effect workspaceId) (load_channels_effect workspaceId s)"

definition handleCreateChannel :: "string \<Rightarrow> string \<Rightarrow> app_state \<Rightarrow> app_state" where
  "handleCreateChannel workspaceId newChannelName s =
     (if trim newChannelName = [] then s
      else
        let newChannel =
              \<lparr>ch_id = workspaceId @ ''-'' @ replace_ws (toLowerCase newChannelName),
               ch_name = replace_ws (toLowerCase (trim newChannelName)),
               ch_description = Some [],
               ch_sessionKey = None, ch_lastMessage = None, ch_lastActivity = None,
               ch_unread = None\<rparr>
        in save_channels_effect workspaceId (s\<lparr>channels := channels s @ [newChannel]\<rparr>))"

definition handleDeleteChannel :: "string \<Rightarrow> string \<Rightarrow> app_state \<Rightarrow> app_state" where
  "handleDeleteChannel workspaceId channelId s =
     (if length (channels s) \<le> 1 then s
      else save_channels_effect workspaceId
             (s\<lparr>channels := filter (\<lambda>ch. ch_id ch \<noteq> channelId) (channels s)\<rparr>))"

subsection \<open>Message store\<close>

text \<open>
  The effect "load messages for selected channel", run when the selection changes: the
  stored list is taken only if the page holds no list for that channel yet. The result is
  the next value of \<open>messages\<close>; \<^const>\<open>None\<close>: the stored value is not a message array.
\<close>

definition load_messages_effect :: "app_state \<Rightarrow> (string \<rightharpoonup> message list) option" where
  "load_messages_effect s =
     (case selectedChannel s of
        None \<Rightarrow> Some (messages s)
      | Some c \<Rightarrow>
          (case localStorage s (messages_key (ch_id c)) of
             None \<Rightarrow> Some (messages s)
           | Some stored \<Rightarrow>
               (case messages s (ch_id c) of
                  Some held \<Rightarrow> Some (messages s)
                | None \<Rightarrow>
                    (case parse_messages stored of
                       None \<Rightarrow> None
                     | Some ms \<Rightarrow> Some ((messages s)(ch_id c \<mapsto> ms))))))"

text \<open>
  The effect "save messages when they change", run when \<open>messages\<close> or the selection
  changes: the list of the selected channel is written under that channel's key.
\<close>

definition save_messages_effect :: "app_state \<Rightarrow> app_state" where
  "save_messages_effect s =
     (case selectedChannel s of
        None \<Rightarrow> s
      | Some c \<Rightarrow>
          (case messages s (ch_id c) of
             None \<Rightarrow> s
           | Some ms \<Rightarrow>
               s\<lparr>localStorage :=
                   (localStorage s)(messages_key (ch_id c) \<mapsto> stringify_messages ms)\<rparr>))"

text \<open>
  Selecting a channel. The render with the new selection runs both effects on the
  \<open>messages\<close> it was rendered with; the list that the load effect queued is shown by the next
  render, whose save effect writes it. (When nothing was queued the second run of the save
  effect writes the same value again.)
\<close>

definition handleChannelSelect :: "channel \<Rightarrow> app_state \<Rightarrow> app_state option" where
  "handleChannelSelect c s =
     (let s1 = s\<lparr>selectedChannel := Some c\<rparr> in
      case load_messages_effect s1 of
        None \<Rightarrow> None
      | Some queued \<Rightarrow>
          Some (save_messages_effect ((save_messages_effect s1)\<lparr>messages := queued\<rparr>)))"

text \<open>
  The state update of \<^verbatim>\<open>sendMessage\<close>,
  \<^verbatim>\<open>setMessages(prev => ({...prev, [id]: [...(prev[id] || []), m]}))\<close>, followed by the save
  effect that the changed \<open>messages\<close> triggers.
\<close>

definition append_message :: "string \<Rightarrow> message \<Rightarrow> app_state \<Rightarrow> app_state" where
  "append_message channelId m s =
     save_messages_effect
       (s\<lparr>messages :=
            (messages s)(channelId \<mapsto> (case messages s channelId of None \<Rightarrow> [] | Some ms \<Rightarrow> ms) @ [m])\<rparr>)"

text \<open>
  \<^verbatim>\<open>sendMessage\<close> up to the request: the trimmed input becomes a user message of the selected
  channel. \<open>now\<close> is \<^verbatim>\<open>Date.now()\<close> and \<open>time\<close> is \<^verbatim>\<open>new Date().toLocaleTimeString()\<close>.
\<close>

definition sendMessage :: "string \<Rightarrow> nat \<Rightarrow> string \<Rightarrow> app_state \<Rightarrow> app_state" where
  "sendMessage inputValue now time s =
     (if trim inputValue = [] \<or> sending s then s
      else
        case selectedChannel s of
          None \<Rightarrow> s
        | Some c \<Rightarrow>
            let userMessage =
                  \<lparr>msg_id = ''msg-'' @ string_of_nat now, msg_role = User,
                   msg_content = trim inputValue, msg_time = time, msg_channelId = ch_id c\<rparr>
            in (append_message (ch_id c) userMessage s)\<lparr>sending := True\<rparr>)"

text \<open>
  \<^verbatim>\<open>sendMessage\<close> after the request. \<open>c\<close> is the \<^verbatim>\<open>selectedChannel\<close> of the render in which
  the send started (the closure keeps it, whatever is selected when the answer arrives);
  \<open>res\<close> is the answer of the page's own route, \<^const>\<open>None\<close> when \<^verbatim>\<open>fetch\<close> rejects. An OK
  answer with a non-empty \<^verbatim>\<open>response\<close> text becomes an agent message of channel \<open>c\<close>; the
  \<^verbatim>\<open>finally\<close> clears \<open>sending\<close>. The result is \<^const>\<open>None\<close> for a truthy \<^verbatim>\<open>response\<close> that is
  not a string, which \<^verbatim>\<open>interface Message\<close> has no place for.
\<close>

definition sendMessage_reply ::
  "channel \<Rightarrow> http_response option \<Rightarrow> nat \<Rightarrow> string \<Rightarrow> app_state \<Rightarrow> app_state option" where
  "sendMessage_reply c res now time s =
     (case res of
        None \<Rightarrow> Some (s\<lparr>sending := False\<rparr>)
      | Some r \<Rightarrow>
          if \<not> ok (res_status r) \<or> res_body r = JNull then Some (s\<lparr>sending := False\<rparr>)
          else
            (case property (res_body r) ''response'' of
               Some (JString text) \<Rightarrow>
                 if text = [] then Some (s\<lparr>sending := False\<rparr>)
                 else
                   let agentMessage =
                         \<lparr>msg_id = ''msg-'' @ string_of_nat now @ ''-agent'', msg_role = Agent,
                          msg_content = text, msg_time = time, msg_channelId = ch_id c\<rparr>
                   in Some ((append_message (ch_id c) agentMessage s)\<lparr>sending := False\<rparr>)
             | v \<Rightarrow> if truthy v then None else Some (s\<lparr>sending := False\<rparr>)))"

text \<open>What the chat panel shows: \<^verbatim>\<open>channelMessages\<close>.\<close>

definition channelMessages :: "app_state \<Rightarrow> message list" where
  "channelMessages s =
     (case selectedChannel s of
        None \<Rightarrow> []
      | Some c \<Rightarrow> (case messages s (ch_id c) of None \<Rightarrow> [] | Some ms \<Rightarrow> ms))"

section \<open>Notions used by the properties\<close>

text \<open>Channel ids are unique within a list.\<close>

definition unique_ids :: "channel list \<Rightarrow> bool" where
  "unique_ids cs = distinct (map ch_id cs)"


text \<open>Reloading the page: the React state starts again, the browser storage stays.\<close>

definition reload :: "app_state \<Rightarrow> app_state" where
  "reload s = initial_state (localStorage s)"

text \<open>
  The page holds, for channel \<open>c\<close>, exactly what the storage holds under the key of \<open>c\<close>.
\<close>

definition in_sync :: "channel \<Rightarrow> app_state \<Rightarrow> bool" where
  "in_sync c s =
     (selectedChannel s = Some c \<and>
      localStorage s (messages_key (ch_id c)) = map_option stringify_messages (messages s (ch_id c)))"

text \<open>
  A run of the page in which an answer arrives after the user has moved to another channel:
  in a fresh browser the page of workspace \<open>w\<close> is opened, the user selects the first
  channel of the list (\<open>w-general\<close>) and sends \<open>hello\<close>, selects the second channel
  (\<open>w-tasks\<close>) while the request is under way, and then the answer \<open>{response: "hi"}\<close>
  arrives with status 200. The reply step gets the channel of the send, as the closure of
  \<^verbatim>\<open>sendMessage\<close> keeps it.
\<close>

definition late_reply_run :: "app_state option" where
  "late_reply_run =
     Option.bind (mount_channels ''w'' (initial_state Map.empty)) (\<lambda>s0.
     Option.bind (handleChannelSelect (channels s0 ! 0) s0) (\<lambda>s1.
     Option.bind (handleChannelSelect (channels s0 ! 1) (sendMessage ''hello'' 1 ''10:00:00'' s1))
       (\<lambda>s2.
     sendMessage_reply (channels s0 ! 0)
       (Some \<lparr>res_status = 200, res_body = JObject [(''response'', JString ''hi'')]\<rparr>)
       2 ''10:00:01'' s2)))"

text \<open>After that run the page is reloaded and the first channel selected again.\<close>

definition late_reply_reloaded :: "app_state option" where
  "late_reply_reloaded =
     Option.bind late_reply_run (\<lambda>s.
     Option.bind (mount_channels ''w'' (reload s)) (\<lambda>s0.
     handleChannelSelect (channels s0 ! 0) s0))"

section \<open>Basic facts\<close>

lemmas string_defs = isWhitespace_def toLowerCase_char_def toLowerCase_def trim_def

lemmas response_defs = try_catch_def NextResponse_json_def error_body_def

lemma toLowerCase_char_upper:
  "65 \<le> (of_char c :: nat) \<Longrightarrow> (of_char c :: nat) \<le> 90 \<Longrightarrow>
   of_char (toLowerCase_char c) = (of_char c + 32 :: nat)"
  by (cases c) (auto simp: toLowerCase_char_def Let_def of_bool_def split: if_splits)

lemma parse_array_stringify:
  "(\<And>x. f (g x) = Some x) \<Longrightarrow> parse_array f (map g xs) = Some xs"
  by (induction xs) simp_all

lemma parse_stringify_channel: "parse_channel (stringify_channel c) = Some c"
  by (cases c)
     (simp add: parse_channel_def stringify_channel_def opt_prop_def req_string_def
        opt_string_def opt_number_def split: option.splits)

lemma parse_stringify_channels: "parse_channels (stringify_channels cs) = Some cs"
  by (simp add: parse_channels_def stringify_channels_def parse_array_stringify
        parse_stringify_channel)

lemma parse_stringify_message: "parse_message (stringify_message m) = Some m"
  by (cases m; cases "msg_role m")
     (simp_all add: parse_message_def stringify_message_def req_string_def parse_role_def
        stringify_role_def)

lemma parse_stringify_messages: "parse_messages (stringify_messages ms) = Some ms"
  by (simp add: parse_messages_def stringify_messages_def parse_array_stringify
        parse_stringify_message)

subsection \<open>Channel store\<close>

lemma channels_save_channels_effect [simp]:
  "channels (save_channels_effect w s) = channels s"
  by (simp add: save_channels_effect_def)

lemma channels_handleCreateChannel:
  "channels (handleCreateChannel w newChannelName s) =
     (if trim newChannelName = [] then channels s
      else channels s @
          [\<lparr>ch_id = w @ ''-'' @ replace_ws (toLowerCase newChannelName),
            ch_name = replace_ws (toLowerCase (trim newChannelName)),
            ch_description = Some [], ch_sessionKey = None, ch_lastMessage = None,
            ch_lastActivity = None, ch_unread = None\<rparr>])"
  by (simp add: handleCreateChannel_def Let_def)

lemma channels_handleDeleteChannel:
  "channels (handleDeleteChannel w channelId s) =
     (if length (channels s) \<le> 1 then channels s
      else filter (\<lambda>ch. ch_id ch \<noteq> channelId) (channels s))"
  by (simp add: handleDeleteChannel_def)

lemma default_channels_eq:
  "default_channels w =
     [\<lparr>ch_id = w @ ''-general'', ch_name = ''general'',
       ch_description = Some ''General discussion'', ch_sessionKey = None,
       ch_lastMessage = None, ch_lastActivity = None, ch_unread = None\<rparr>,
      \<lparr>ch_id = w @ ''-tasks'', ch_name = ''tasks'',
       ch_description = Some ''Task tracking and todos'', ch_sessionKey = None,
       ch_lastMessage = None, ch_lastActivity = None, ch_unread = None\<rparr>,
      \<lparr>ch_id = w @ ''-research'', ch_name = ''research'',
       ch_description = Some ''Research notes and findings'', ch_sessionKey = None,
       ch_lastMessage = None, ch_lastActivity = None, ch_unread = None\<rparr>,
      \<lparr>ch_id = w @ ''-ideas'', ch_name = ''ideas'',
       ch_description = Some ''Brainstorming and ideas'', ch_sessionKey = None,
       ch_lastMessage = None, ch_lastActivity = None, ch_unread = None\<rparr>]"
  by (simp add: default_channels_def DEFAULT_CHANNELS_def)

lemma mount_channels_unset:
  "localStorage s (channels_key w) = None \<Longrightarrow>
   mount_channels w s =
     Some (s\<lparr>channels := default_channels w,
              localStorage :=
                (localStorage s)(channels_key w \<mapsto> stringify_channels (default_channels w))\<rparr>)"
  by (simp add: mount_channels_def load_channels_effect_def save_channels_effect_def Let_def
        default_channels_eq)

lemma channels_mount_fresh:
  "channels (the (mount_channels w (initial_state Map.empty))) = default_channels w"
  by (simp add: mount_channels_unset initial_state_def)

lemma unique_ids_default_channels: "unique_ids (default_channels w)"
  by (simp add: unique_ids_def default_channels_eq)

text \<open>
  Deleting from a list that holds exactly one channel changes nothing, whatever the id.
\<close>

lemma delete_last_channel_noop:
  "length (channels s) = 1 \<Longrightarrow> handleDeleteChannel w channelId s = s"
  by (simp add: handleDeleteChannel_def)

text \<open>
  While ids are unique a delete removes at most one channel, so it never empties a list.
\<close>

lemma length_filter_unique:
  "distinct (map f xs) \<Longrightarrow> length xs \<le> Suc (length (filter (\<lambda>x. f x \<noteq> a) xs))"
proof (induction xs)
  case Nil
  then show ?case by simp
next
  case (Cons x xs)
  show ?case
  proof (cases "f x = a")
    case True
    with Cons.prems have "a \<notin> f ` set xs" by simp
    then have "filter (\<lambda>x. f x \<noteq> a) xs = xs" by (auto simp: filter_id_conv)
    with True show ?thesis by simp
  next
    case False
    with Cons show ?thesis by simp
  qed
qed

lemma delete_keeps_one_if_unique:
  assumes "unique_ids (channels s)" and "channels s \<noteq> []"
  shows "channels (handleDeleteChannel w channelId s) \<noteq> []"
proof (cases "length (channels s) \<le> 1")
  case True
  with assms(2) show ?thesis by (simp add: channels_handleDeleteChannel)
next
  case False
  from assms(1) have "length (channels s)
      \<le> Suc (length (filter (\<lambda>ch. ch_id ch \<noteq> channelId) (channels s)))"
    unfolding unique_ids_def by (rule length_filter_unique)
  with False have "filter (\<lambda>ch. ch_id ch \<noteq> channelId) (channels s) \<noteq> []" by auto
  with False show ?thesis by (simp add: channels_handleDeleteChannel)
qed

text \<open>
  The guard of delete counts channels and its filter removes by id: of two channels with the
  same id a delete removes both.
\<close>

lemma delete_duplicate_pair:
  "channels s = [a, b] \<Longrightarrow> ch_id a = channelId \<Longrightarrow> ch_id b = channelId \<Longrightarrow>
   channels (handleDeleteChannel w channelId s) = []"
  by (simp add: channels_handleDeleteChannel)

subsection \<open>Message store\<close>

lemma in_sync_handleChannelSelect:
  "handleChannelSelect c s0 = Some s \<Longrightarrow> in_sync c s"
  by (auto simp: handleChannelSelect_def load_messages_effect_def save_messages_effect_def
        in_sync_def Let_def split: option.splits)

lemma channelMessages_handleChannelSelect_unset:
  "handleChannelSelect c s0 = Some s \<Longrightarrow> localStorage s0 (messages_key (ch_id c)) = None \<Longrightarrow>
   messages s0 (ch_id c) = None \<Longrightarrow> channelMessages s = []"
  by (auto simp: handleChannelSelect_def load_messages_effect_def save_messages_effect_def
        channelMessages_def Let_def split: option.splits)

lemma append_message_selected:
  assumes "selectedChannel s = Some c"
  shows "in_sync c (append_message (ch_id c) m s)"
    and "channelMessages (append_message (ch_id c) m s) = channelMessages s @ [m]"
  using assms
  by (auto simp: append_message_def save_messages_effect_def in_sync_def channelMessages_def
        split: option.splits)

text \<open>
  An append to the list of a channel that is not the selected one changes the list the page
  holds and leaves the stored list of that channel as it was.
\<close>

lemma append_message_not_selected:
  assumes "selectedChannel s = Some d" and "ch_id d \<noteq> channelId"
  shows "localStorage (append_message channelId m s) (messages_key channelId) =
           localStorage s (messages_key channelId)"
    and "messages (append_message channelId m s) channelId =
           Some ((case messages s channelId of None \<Rightarrow> [] | Some ms \<Rightarrow> ms) @ [m])"
  using assms
  by (auto simp: append_message_def save_messages_effect_def messages_key_def
        split: option.splits)

lemma channelMessages_sending:
  "channelMessages (s\<lparr>sending := b\<rparr>) = channelMessages s"
  by (cases "selectedChannel s") (simp_all add: channelMessages_def)

text \<open>A send appends its user message to the list of the selected channel.\<close>

lemma sendMessage_appends:
  assumes "trim inputValue \<noteq> []" and "\<not> sending s" and "selectedChannel s = Some c"
  shows "channelMessages (sendMessage inputValue now time s) =
           channelMessages s @
             [\<lparr>msg_id = ''msg-'' @ string_of_nat now, msg_role = User,
               msg_content = trim inputValue, msg_time = time, msg_channelId = ch_id c\<rparr>]"
proof -
  let ?m = "\<lparr>msg_id = ''msg-'' @ string_of_nat now, msg_role = User,
             msg_content = trim inputValue, msg_time = time, msg_channelId = ch_id c\<rparr>"
  from assms have "sendMessage inputValue now time s =
      (append_message (ch_id c) ?m s)\<lparr>sending := True\<rparr>"
    by (simp add: sendMessage_def Let_def)
  then show ?thesis
    using append_message_selected(2) [OF assms(3)] by (simp add: channelMessages_sending)
qed

lemma fold_append_message:
  "selectedChannel s = Some c \<Longrightarrow>
   (ms \<noteq> [] \<or> in_sync c s) \<Longrightarrow>
   in_sync c (fold (append_message (ch_id c)) ms s)
   \<and> channelMessages (fold (append_message (ch_id c)) ms s) = channelMessages s @ ms"
proof (induction ms arbitrary: s)
  case Nil
  then show ?case by simp
next
  case (Cons m ms)
  let ?s = "append_message (ch_id c) m s"
  from Cons.prems(1) have sync: "in_sync c ?s"
    and shown: "channelMessages ?s = channelMessages s @ [m]"
    by (rule append_message_selected)+
  from sync have "selectedChannel ?s = Some c" by (simp add: in_sync_def)
  from Cons.IH [OF this] sync shown show ?case by simp
qed

lemma handleChannelSelect_reload:
  assumes "in_sync c s"
  shows "\<exists>s'. handleChannelSelect c (reload s) = Some s' \<and> channelMessages s' = channelMessages s"
proof (cases "messages s (ch_id c)")
  case None
  with assms show ?thesis
    by (simp add: in_sync_def handleChannelSelect_def reload_def initial_state_def
          load_messages_effect_def save_messages_effect_def channelMessages_def)
next
  case (Some ms)
  with assms show ?thesis
    by (simp add: in_sync_def handleChannelSelect_def reload_def initial_state_def
          load_messages_effect_def save_messages_effect_def channelMessages_def
          parse_stringify_messages)
qed

subsection \<open>Route handlers\<close>

lemma snd_try_catch [simp]: "snd (try_catch msg r) = snd r"
  by (simp add: try_catch_def split: option.splits)

lemma map_of_stringify_object_absent:
  "k \<notin> fst ` set ps \<Longrightarrow>
   map_of (List.map_filter (\<lambda>(k, v). map_option (Pair k) v) ps) k = None"
  by (induction ps) (auto simp: List.map_filter_simps split: option.splits)

text \<open>
  Reading a property of a stringified object literal gives the value written there, and
  \<^verbatim>\<open>undefined\<close> when that value was \<^verbatim>\<open>undefined\<close>.
\<close>

lemma property_stringify_object:
  "distinct (map fst ps) \<Longrightarrow>
   property (stringify_object ps) k = (case map_of ps k of None \<Rightarrow> None | Some v \<Rightarrow> v)"
proof (induction ps)
  case Nil
  then show ?case by (simp add: stringify_object_def List.map_filter_simps)
next
  case (Cons p ps)
  obtain k' v where p: "p = (k', v)" by (cases p)
  from Cons.prems p have absent: "k' \<notin> fst ` set ps" and d: "distinct (map fst ps)"
    by simp_all
  from Cons.IH [OF d] absent show ?case
    by (cases v)
       (auto simp: p stringify_object_def List.map_filter_simps map_of_stringify_object_absent)
qed

text \<open>Only an object has a truthy property.\<close>

lemma truthy_property_object:
  "truthy (property body k) \<Longrightarrow> \<exists>ps. body = JObject ps"
  by (cases body) simp_all

lemma sessions_POST_send_sent:
  assumes "truthy (property body ''message'')"
  shows "snd (sessions_POST cfg fetch ''send'' (Some body)) =
     [\<lparr>gw_url = GATEWAY_URL cfg @ ''/api/sessions/send'', gw_query = [],
       gw_method = ''POST'', gw_cache = None, gw_headers = getHeaders cfg,
       gw_body = Some (stringify_object
         [(''sessionKey'', property body ''sessionKey''),
          (''agentId'', property body ''agentId''),
          (''label'', property body ''label''), (''message'', property body ''message''),
          (''timeoutSeconds'',
             with_default (property body ''timeoutSeconds'') (JNumber 120))])\<rparr>]"
proof -
  from assms obtain ps where "body = JObject ps" by (auto dest: truthy_property_object)
  with assms show ?thesis
    by (simp add: sessions_POST_def Let_def split: gateway_result.splits option.splits)
qed

lemma sessions_POST_send_response:
  assumes "truthy (property body ''message'')"
  shows "fst (sessions_POST cfg fetch ''send'' (Some body)) =
     (case fetch (hd (snd (sessions_POST cfg fetch ''send'' (Some body)))) of
        NetworkError \<Rightarrow> \<lparr>res_status = 500, res_body = error_body ''Request failed''\<rparr>
      | Response st b \<Rightarrow>
          if ok st then
            (case b of
               None \<Rightarrow> \<lparr>res_status = 500, res_body = error_body ''Request failed''\<rparr>
             | Some data \<Rightarrow> \<lparr>res_status = 200, res_body = data\<rparr>)
          else if st < 200 \<or> 599 < st \<or> st \<in> {204, 205, 304}
          then \<lparr>res_status = 500, res_body = error_body ''Request failed''\<rparr>
          else \<lparr>res_status = st, res_body = error_body ''Send failed''\<rparr>)"
proof -
  from assms obtain ps where body: "body = JObject ps" by (auto dest: truthy_property_object)
  from assms show ?thesis
    unfolding sessions_POST_send_sent [OF assms] list.sel
    by (auto simp: body sessions_POST_def Let_def try_catch_def NextResponse_json_def
          split: gateway_result.splits option.splits)
qed

lemma sessions_POST_spawn_sent:
  assumes "truthy (property body ''task'')"
  shows "snd (sessions_POST cfg fetch ''spawn'' (Some body)) =
     [\<lparr>gw_url = GATEWAY_URL cfg @ ''/api/sessions/spawn'', gw_query = [],
       gw_method = ''POST'', gw_cache = None, gw_headers = getHeaders cfg,
       gw_body = Some (stringify_object
         [(''task'', property body ''task''), (''agentId'', property body ''agentId''),
          (''label'', property body ''label''), (''model'', property body ''model''),
          (''thinking'', property body ''thinking''),
          (''runTimeoutSeconds'',
             with_default (property body ''runTimeoutSeconds'') (JNumber 300)),
          (''cleanup'', with_default (property body ''cleanup'') (JString ''keep''))])\<rparr>]"
proof -
  from assms obtain ps where "body = JObject ps" by (auto dest: truthy_property_object)
  with assms show ?thesis
    by (simp add: sessions_POST_def Let_def split: gateway_result.splits option.splits)
qed

text \<open>
  The response of the \<open>spawn\<close> action as a function of the gateway's answer to the request
  it sent.
\<close>

lemma sessions_POST_spawn_response:
  assumes "truthy (property body ''task'')"
  shows "fst (sessions_POST cfg fetch ''spawn'' (Some body)) =
     (case fetch (hd (snd (sessions_POST cfg fetch ''spawn'' (Some body)))) of
        NetworkError \<Rightarrow> \<lparr>res_status = 500, res_body = error_body ''Request failed''\<rparr>
      | Response st b \<Rightarrow>
          if ok st then
            (case b of
               None \<Rightarrow> \<lparr>res_status = 500, res_body = error_body ''Request failed''\<rparr>
             | Some data \<Rightarrow> \<lparr>res_status = 200, res_body = data\<rparr>)
          else if st < 200 \<or> 599 < st \<or> st = 304
          then \<lparr>res_status = 500, res_body = error_body ''Request failed''\<rparr>
          else \<lparr>res_status = st, res_body = error_body ''Spawn failed''\<rparr>)"
proof -
  from assms obtain ps where body: "body = JObject ps" by (auto dest: truthy_property_object)
  from assms show ?thesis
    unfolding sessions_POST_spawn_sent [OF assms] list.sel
    by (auto simp: body sessions_POST_def Let_def try_catch_def NextResponse_json_def ok_def
          split: gateway_result.splits option.splits)
qed

text \<open>
  The \<open>spawn\<close> action passes on every status of the gateway from 400 to 599.
\<close>

lemma sessions_POST_spawn_passthrough:
  assumes "truthy (property body ''task'')" and "\<forall>req. \<exists>b. fetch req = Response st b"
    and "400 \<le> st" and "st \<le> 599"
  shows "fst (sessions_POST cfg fetch ''spawn'' (Some body)) =
           \<lparr>res_status = st, res_body = error_body ''Spawn failed''\<rparr>"
proof -
  from assms(1) obtain ps where body: "body = JObject ps"
    by (auto dest: truthy_property_object)
  let ?req = "\<lparr>gw_url = GATEWAY_URL cfg @ ''/api/sessions/spawn'', gw_query = [],
       gw_method = ''POST'', gw_cache = None, gw_headers = getHeaders cfg,
       gw_body = Some (stringify_object
         [(''task'', map_of ps ''task''), (''agentId'', map_of ps ''agentId''),
          (''label'', map_of ps ''label''), (''model'', map_of ps ''model''),
          (''thinking'', map_of ps ''thinking''),
          (''runTimeoutSeconds'', with_default (map_of ps ''runTimeoutSeconds'') (JNumber 300)),
          (''cleanup'', with_default (map_of ps ''cleanup'') (JString ''keep''))])\<rparr>"
  from assms(2) obtain b where "fetch ?req = Response st b" by blast
  with assms show ?thesis
    by (simp add: body sessions_POST_def response_defs Let_def ok_def)
qed

lemma send_POST_sent:
  "snd (send_POST cfg fetch request_json) \<noteq> [] \<longleftrightarrow>
     (\<exists>body. request_json = Some body \<and> truthy (property body ''message'')
        \<and> (truthy (property body ''agentId'') \<or> truthy (property body ''sessionKey'')))"
  by (cases request_json)
     (auto simp: send_POST_def Let_def split: gateway_result.splits option.splits)

text \<open>
  A body that is \<^verbatim>\<open>null\<close>, or that is not JSON, never reaches the validation of a route: the
  exception is answered with status 500.
\<close>

lemma null_body_is_500:
  "sessions_POST cfg fetch ''send'' (Some JNull) =
     (\<lparr>res_status = 500, res_body = error_body ''Request failed''\<rparr>, [])"
  "sessions_POST cfg fetch ''spawn'' (Some JNull) =
     (\<lparr>res_status = 500, res_body = error_body ''Request failed''\<rparr>, [])"
  "sessions_POST cfg fetch action None =
     (\<lparr>res_status = 500, res_body = error_body ''Request failed''\<rparr>, [])"
  "send_POST cfg fetch (Some JNull) =
     (\<lparr>res_status = 500, res_body = error_body ''Failed to send message''\<rparr>, [])"
  "send_POST cfg fetch None =
     (\<lparr>res_status = 500, res_body = error_body ''Failed to send message''\<rparr>, [])"
  by (simp_all add: sessions_POST_def send_POST_def try_catch_def)

text \<open>
  The \<open>history\<close> action takes an empty \<open>sessionKey\<close> parameter as a missing one.
\<close>

lemma sessions_GET_history_empty_key:
  "get_param searchParams ''sessionKey'' = Some [] \<Longrightarrow>
   sessions_GET cfg fetch ''history'' searchParams =
     (\<lparr>res_status = 400, res_body = error_body ''sessionKey required''\<rparr>, [])"
  by (simp add: sessions_GET_def response_defs)

section \<open>Properties of the channel store\<close>

text \<open>
  C1, as stated: every channel-store operation preserves the uniqueness of channel ids, also
  two creates with the same name. This fails: in a fresh workspace \<open>w\<close>, creating a channel
  named \<open>a\<close> twice appends two channels with the id \<open>w-a\<close>.
\<close>

theorem unique_ids_counterexample:
  "\<not> unique_ids (channels (handleCreateChannel ''w'' ''a'' (handleCreateChannel ''w'' ''a''
        (the (mount_channels ''w'' (initial_state Map.empty))))))"
  by (simp add: channels_handleCreateChannel channels_mount_fresh default_channels_eq
        string_defs unique_ids_def)

text \<open>
  C1, amended: seeding a workspace that has no stored channels yields unique ids; delete
  preserves the uniqueness of ids; a create (of a name that is not blank) preserves it exactly
  when the id it derives is not yet the id of a channel of the list.
\<close>

theorem unique_ids_preserved:
  "(localStorage s (channels_key w) = None \<longrightarrow>
      (\<exists>s'. mount_channels w s = Some s' \<and> unique_ids (channels s')))
   \<and> (unique_ids (channels s) \<longrightarrow> unique_ids (channels (handleDeleteChannel w channelId s)))
   \<and> (unique_ids (channels s) \<and> trim newChannelName \<noteq> [] \<longrightarrow>
        unique_ids (channels (handleCreateChannel w newChannelName s)) =
          (w @ ''-'' @ replace_ws (toLowerCase newChannelName) \<notin> ch_id ` set (channels s)))"
proof (intro conjI impI)
  assume "localStorage s (channels_key w) = None"
  then show "\<exists>s'. mount_channels w s = Some s' \<and> unique_ids (channels s')"
    by (simp add: mount_channels_unset unique_ids_default_channels)
next
  assume "unique_ids (channels s)"
  then show "unique_ids (channels (handleDeleteChannel w channelId s))"
    by (simp add: channels_handleDeleteChannel unique_ids_def distinct_map_filter)
next
  assume "unique_ids (channels s) \<and> trim newChannelName \<noteq> []"
  then show "unique_ids (channels (handleCreateChannel w newChannelName s)) =
          (w @ ''-'' @ replace_ws (toLowerCase newChannelName) \<notin> ch_id ` set (channels s))"
    by (simp add: channels_handleCreateChannel unique_ids_def)
qed

text \<open>
  The amended C1 at concrete inputs: a fresh workspace \<open>w\<close> is seeded with unique ids; there,
  deleting \<open>w-tasks\<close> and creating \<open>My Plan\<close> keep the ids unique, and creating \<open>general\<close>
  does not.
\<close>

theorem unique_ids_preserved_witness:
  "localStorage (initial_state Map.empty) (channels_key ''w'') = None
   \<and> unique_ids (channels (the (mount_channels ''w'' (initial_state Map.empty))))
   \<and> trim ''My Plan'' \<noteq> [] \<and> trim ''general'' \<noteq> []
   \<and> unique_ids (channels (handleDeleteChannel ''w'' ''w-tasks''
         (the (mount_channels ''w'' (initial_state Map.empty)))))
   \<and> unique_ids (channels (handleCreateChannel ''w'' ''My Plan''
         (the (mount_channels ''w'' (initial_state Map.empty)))))
   \<and> \<not> unique_ids (channels (handleCreateChannel ''w'' ''general''
         (the (mount_channels ''w'' (initial_state Map.empty)))))"
proof -
  let ?init = "initial_state Map.empty"
  let ?s = "the (mount_channels ''w'' ?init)"
  have unset: "localStorage ?init (channels_key ''w'') = None"
    by (simp add: initial_state_def)
  have plan: "trim ''My Plan'' \<noteq> []" and general: "trim ''general'' \<noteq> []"
    by (simp_all add: string_defs)
  from unset unique_ids_preserved [of ?init "''w''" "''w-tasks''" "''My Plan''"]
  have seeded: "unique_ids (channels ?s)" by auto
  from seeded unique_ids_preserved [of ?s "''w''" "''w-tasks''" "''My Plan''"]
  have deleted: "unique_ids (channels (handleDeleteChannel ''w'' ''w-tasks'' ?s))" by blast
  from seeded plan unique_ids_preserved [of ?s "''w''" "''w-tasks''" "''My Plan''"]
  have "unique_ids (channels (handleCreateChannel ''w'' ''My Plan'' ?s)) =
          (''w'' @ ''-'' @ replace_ws (toLowerCase ''My Plan'') \<notin> ch_id ` set (channels ?s))"
    by blast
  then have created: "unique_ids (channels (handleCreateChannel ''w'' ''My Plan'' ?s))"
    by (simp add: channels_mount_fresh default_channels_eq string_defs)
  from seeded general unique_ids_preserved [of ?s "''w''" "''w-tasks''" "''general''"]
  have "unique_ids (channels (handleCreateChannel ''w'' ''general'' ?s)) =
          (''w'' @ ''-'' @ replace_ws (toLowerCase ''general'') \<notin> ch_id ` set (channels ?s))"
    by blast
  then have clash: "\<not> unique_ids (channels (handleCreateChannel ''w'' ''general'' ?s))"
    by (simp add: channels_mount_fresh default_channels_eq string_defs)
  from unset seeded plan general deleted created clash show ?thesis by blast
qed

text \<open>
  C2: deleting from a list of exactly one channel is a no-op (\<open>delete_last_channel_noop\<close>
  above), and every reachable state of the channel store has at least one channel. The
  second part fails on the code: in a fresh workspace \<open>w\<close>, create \<open>general\<close> (a second
  channel with the id \<open>w-general\<close>), delete \<open>w-tasks\<close>, \<open>w-research\<close> and \<open>w-ideas\<close>; two
  channels remain, so the guard of delete lets the delete of \<open>w-general\<close> through, and the
  filter removes both.
\<close>

theorem delete_can_empty_channels:
  "channels (handleDeleteChannel ''w'' ''w-general''
        (handleDeleteChannel ''w'' ''w-ideas''
        (handleDeleteChannel ''w'' ''w-research''
        (handleDeleteChannel ''w'' ''w-tasks''
        (handleCreateChannel ''w'' ''general''
           (the (mount_channels ''w'' (initial_state Map.empty)))))))) = []"
  by (simp add: channels_handleDeleteChannel channels_handleCreateChannel channels_mount_fresh
        default_channels_eq string_defs)

text \<open>
  C3: for every workspace id with no stored channels, the first read yields exactly the four
  default channels \<open>general\<close>, \<open>tasks\<close>, \<open>research\<close>, \<open>ideas\<close>, in that order, each with the
  id \<open>{workspaceId}-{name}\<close>, and this list is what the storage then holds under the key
  \<open>clawhub_channels_{workspaceId}\<close>: reading that value back gives the same list.
\<close>

theorem first_read_seeds_defaults:
  "localStorage s (channels_key w) = None \<Longrightarrow>
   (\<exists>s'. mount_channels w s = Some s'
      \<and> channels s' = default_channels w
      \<and> map ch_name (channels s') = [''general'', ''tasks'', ''research'', ''ideas'']
      \<and> map ch_id (channels s') =
          map (\<lambda>n. w @ ''-'' @ n) [''general'', ''tasks'', ''research'', ''ideas'']
      \<and> localStorage s' (''clawhub_channels_'' @ w) = Some (stringify_channels (channels s'))
      \<and> parse_channels (stringify_channels (channels s')) = Some (channels s'))"
  by (simp add: mount_channels_unset parse_stringify_channels default_channels_eq
        channels_key_def)

text \<open>C3 at a concrete input: the workspace \<open>w\<close> over an empty storage.\<close>

theorem first_read_seeds_defaults_witness:
  "localStorage (initial_state Map.empty) (channels_key ''w'') = None
   \<and> map_option (map ch_id \<circ> channels) (mount_channels ''w'' (initial_state Map.empty))
       = Some [''w-general'', ''w-tasks'', ''w-research'', ''w-ideas'']"
proof -
  have unset: "localStorage (initial_state Map.empty) (channels_key ''w'') = None"
    by (simp add: initial_state_def)
  from first_read_seeds_defaults [OF unset] obtain s' where
    "mount_channels ''w'' (initial_state Map.empty) = Some s'"
    "map ch_id (channels s') =
       map (\<lambda>n. ''w'' @ ''-'' @ n) [''general'', ''tasks'', ''research'', ''ideas'']"
    by blast
  with unset show ?thesis by simp
qed

text \<open>
  C4, as stated: for every user-supplied name, create appends a channel whose id and name are
  both the lower-cased name with every run of whitespace replaced by a hyphen (the id after
  the prefix \<open>{workspaceId}-\<close>). This fails: the name \<open>\<^verbatim>\<open> a\<close>\<close> (a space, then \<open>a\<close>) yields the
  channel name \<open>a\<close>, not \<open>-a\<close>, since the name is trimmed first; and a blank name appends
  nothing.
\<close>

theorem create_counterexample:
  "ch_name (last (channels (handleCreateChannel ''w'' '' a''
       (the (mount_channels ''w'' (initial_state Map.empty))))))
     \<noteq> replace_ws (toLowerCase '' a'')
   \<and> channels (handleCreateChannel ''w'' ''  ''
        (the (mount_channels ''w'' (initial_state Map.empty))))
       = channels (the (mount_channels ''w'' (initial_state Map.empty)))"
  by (simp add: channels_handleCreateChannel channels_mount_fresh default_channels_eq
        string_defs)

text \<open>
  C4, amended: for every user-supplied name that is not blank, create appends one channel;
  its id is \<open>{workspaceId}-\<close> followed by the lower-cased name with every run of whitespace
  replaced by a hyphen, and its name is derived in the same way from the trimmed name. For a
  blank name create changes nothing. Creating \<open>My Plan\<close> in workspace \<open>w\<close> yields the id
  \<open>w-my-plan\<close> and the name \<open>my-plan\<close>.
\<close>

theorem create_channel_derivation:
  "(trim newChannelName \<noteq> [] \<longrightarrow>
      channels (handleCreateChannel w newChannelName s) =
        channels s @
          [\<lparr>ch_id = w @ ''-'' @ replace_ws (toLowerCase newChannelName),
            ch_name = replace_ws (toLowerCase (trim newChannelName)),
            ch_description = Some [], ch_sessionKey = None, ch_lastMessage = None,
            ch_lastActivity = None, ch_unread = None\<rparr>])
   \<and> (trim newChannelName = [] \<longrightarrow> handleCreateChannel w newChannelName s = s)
   \<and> channels (handleCreateChannel w ''My Plan'' s) =
        channels s @
          [\<lparr>ch_id = w @ ''-my-plan'', ch_name = ''my-plan'',
            ch_description = Some [], ch_sessionKey = None, ch_lastMessage = None,
            ch_lastActivity = None, ch_unread = None\<rparr>]"
  by (simp add: handleCreateChannel_def save_channels_effect_def string_defs Let_def)

text \<open>
  The amended C4 at concrete inputs: the name \<open>\<^verbatim>\<open> a\<close>\<close> is not blank and gives the id \<open>w--a\<close>
  and the name \<open>a\<close>; the name of two spaces is blank and changes nothing.
\<close>

theorem create_channel_derivation_witness:
  "trim '' a'' \<noteq> [] \<and> trim ''  '' = []
   \<and> map ch_id (channels (handleCreateChannel ''w'' '' a'' (initial_state Map.empty)))
       = [''w--a'']
   \<and> map ch_name (channels (handleCreateChannel ''w'' '' a'' (initial_state Map.empty)))
       = [''a'']
   \<and> handleCreateChannel ''w'' ''  '' (initial_state Map.empty) = initial_state Map.empty"
  using create_channel_derivation [of "'' a''" "''w''" "initial_state Map.empty"]
        create_channel_derivation [of "''  ''" "''w''" "initial_state Map.empty"]
  by (simp add: string_defs initial_state_def)

section \<open>Properties of the message store\<close>

text \<open>
  Messages appended while their channel is the selected one survive a reload. Here \<open>s\<close> is
  any state reached by selecting channel \<open>c\<close>, and \<open>ms\<close> are the messages appended to the
  list of \<open>c\<close>: the page shows what it showed followed by \<open>ms\<close>; after a reload and the
  selection of \<open>c\<close> it shows the same list; and a channel with nothing stored and nothing
  held starts from the empty list, so that the reloaded list is exactly \<open>ms\<close>.
\<close>

lemma roundtrip_while_selected:
  assumes "handleChannelSelect c s0 = Some s"
  shows "channelMessages (fold (append_message (ch_id c)) ms s) = channelMessages s @ ms
    \<and> (\<exists>s'. handleChannelSelect c (reload (fold (append_message (ch_id c)) ms s)) = Some s'
          \<and> channelMessages s' = channelMessages s @ ms)
    \<and> (localStorage s0 (messages_key (ch_id c)) = None \<and> messages s0 (ch_id c) = None \<longrightarrow>
          channelMessages s = [])"
proof -
  from assms have sync: "in_sync c s" by (rule in_sync_handleChannelSelect)
  then have sel: "selectedChannel s = Some c" by (simp add: in_sync_def)
  from fold_append_message [OF sel, of ms] sync
  have after: "in_sync c (fold (append_message (ch_id c)) ms s)"
    and shown: "channelMessages (fold (append_message (ch_id c)) ms s) = channelMessages s @ ms"
    by simp_all
  from handleChannelSelect_reload [OF after] shown
  have "\<exists>s'. handleChannelSelect c (reload (fold (append_message (ch_id c)) ms s)) = Some s'
          \<and> channelMessages s' = channelMessages s @ ms"
    by simp
  with shown assms show ?thesis
    by (auto dest: channelMessages_handleChannelSelect_unset)
qed

text \<open>
  The state after the run \<open>late_reply_run\<close>: \<open>w-tasks\<close> is selected, the page holds two
  messages for \<open>w-general\<close>, and the storage has the first of them alone.
\<close>

lemma late_reply_run_eq:
  "late_reply_run =
     Some \<lparr>channels = default_channels ''w'',
           selectedChannel = Some (default_channels ''w'' ! 1),
           messages =
             [''w-general'' \<mapsto>
                [\<lparr>msg_id = ''msg-1'', msg_role = User, msg_content = ''hello'',
                  msg_time = ''10:00:00'', msg_channelId = ''w-general''\<rparr>,
                 \<lparr>msg_id = ''msg-2-agent'', msg_role = Agent, msg_content = ''hi'',
                  msg_time = ''10:00:01'', msg_channelId = ''w-general''\<rparr>]],
           sending = False,
           localStorage =
             [''clawhub_channels_w'' \<mapsto> stringify_channels (default_channels ''w''),
              ''clawhub_messages_w-general'' \<mapsto>
                stringify_messages
                  [\<lparr>msg_id = ''msg-1'', msg_role = User, msg_content = ''hello'',
                    msg_time = ''10:00:00'', msg_channelId = ''w-general''\<rparr>]]\<rparr>"
  by (simp add: late_reply_run_def mount_channels_def load_channels_effect_def
        save_channels_effect_def default_channels_def DEFAULT_CHANNELS_def channels_key_def
        handleChannelSelect_def load_messages_effect_def save_messages_effect_def
        sendMessage_def sendMessage_reply_def append_message_def initial_state_def
        messages_key_def string_defs ok_def string_of_nat.simps Let_def)

text \<open>
  C9: for every channel and every number \<open>N\<close>, appending \<open>N\<close> messages to the list of that
  channel and then reloading the list from the key \<open>clawhub_messages_{channelId}\<close> reproduces
  the same \<open>N\<close> messages in the same order. The code breaks this for an answer that arrives
  late. In channel \<open>w-general\<close> the user sends \<open>hello\<close>: the user message is appended and
  saved. The user selects \<open>w-tasks\<close>; then the answer arrives, and its agent message is
  appended to the list of \<open>w-general\<close>, the channel of the send. The save effect writes the
  list of the selected channel only: the page holds two messages for \<open>w-general\<close>, and after
  a reload the channel shows the first one alone.
\<close>

theorem late_reply_not_persisted:
  "map_option (\<lambda>s. messages s ''w-general'') late_reply_run =
     Some (Some [\<lparr>msg_id = ''msg-1'', msg_role = User, msg_content = ''hello'',
                  msg_time = ''10:00:00'', msg_channelId = ''w-general''\<rparr>,
                 \<lparr>msg_id = ''msg-2-agent'', msg_role = Agent, msg_content = ''hi'',
                  msg_time = ''10:00:01'', msg_channelId = ''w-general''\<rparr>])
   \<and> map_option channelMessages late_reply_reloaded =
     Some [\<lparr>msg_id = ''msg-1'', msg_role = User, msg_content = ''hello'',
             msg_time = ''10:00:00'', msg_channelId = ''w-general''\<rparr>]"
  by (simp add: late_reply_reloaded_def late_reply_run_eq reload_def mount_channels_def
        load_channels_effect_def save_channels_effect_def parse_stringify_channels
        channels_key_def default_channels_def DEFAULT_CHANNELS_def handleChannelSelect_def
        load_messages_effect_def save_messages_effect_def initial_state_def messages_key_def
        channelMessages_def parse_stringify_messages Let_def)

section \<open>Properties of the route handlers\<close>

text \<open>
  C5: for every POST to the \<open>send\<close> action of the sessions proxy whose body lacks a message
  (the property is absent or the empty string; more generally it is falsy), the route returns
  status 400 with the body \<open>{error: "message required"}\<close>, whatever the other properties of
  the body and whatever the gateway does, and sends nothing to the gateway. The body is any
  JSON value whose properties can be read, that is any but \<^verbatim>\<open>null\<close>.
\<close>

theorem sessions_send_requires_message:
  "body \<noteq> JNull \<Longrightarrow> \<not> truthy (property body ''message'') \<Longrightarrow>
   sessions_POST cfg fetch ''send'' (Some body) =
     (\<lparr>res_status = 400, res_body = JObject [(''error'', JString ''message required'')]\<rparr>, [])"
  by (simp add: sessions_POST_def response_defs Let_def)

text \<open>
  C5 at concrete inputs: a body with a session key and an agent id but no message, and a body
  whose message is the empty string.
\<close>

theorem sessions_send_requires_message_witness:
  "JObject [(''sessionKey'', JString ''k''), (''agentId'', JString ''a'')] \<noteq> JNull
   \<and> \<not> truthy (property (JObject [(''sessionKey'', JString ''k''), (''agentId'', JString ''a'')])
          ''message'')
   \<and> JObject [(''message'', JString []), (''label'', JString ''l'')] \<noteq> JNull
   \<and> \<not> truthy (property (JObject [(''message'', JString []), (''label'', JString ''l'')])
          ''message'')
   \<and> sessions_POST (config_of_env None None) (\<lambda>req. Response 200 (Some (JObject []))) ''send''
        (Some (JObject [(''sessionKey'', JString ''k''), (''agentId'', JString ''a'')]))
      = (\<lparr>res_status = 400, res_body = JObject [(''error'', JString ''message required'')]\<rparr>, [])
   \<and> sessions_POST (config_of_env None None) (\<lambda>req. Response 200 (Some (JObject []))) ''send''
        (Some (JObject [(''message'', JString []), (''label'', JString ''l'')]))
      = (\<lparr>res_status = 400, res_body = JObject [(''error'', JString ''message required'')]\<rparr>, [])"
  using sessions_send_requires_message
          [of "JObject [(''sessionKey'', JString ''k''), (''agentId'', JString ''a'')]"
              "config_of_env None None" "\<lambda>req. Response 200 (Some (JObject []))"]
        sessions_send_requires_message
          [of "JObject [(''message'', JString []), (''label'', JString ''l'')]"
              "config_of_env None None" "\<lambda>req. Response 200 (Some (JObject []))"]
  by simp



text \<open>
  C7: for every POST to the \<open>spawn\<close> action of the sessions proxy: a body without a task (the
  property is absent or falsy) is answered with status 400 and nothing is sent to the
  gateway. With a task, one request goes to \<open>/api/sessions/spawn\<close> of the gateway; its body
  carries the task as given, \<open>runTimeoutSeconds\<close> as given or else 300, \<open>cleanup\<close> as given
  or else \<open>keep\<close>; and the response is decided by the gateway's answer to that request: the
  JSON of an OK answer with status 200, and for an answer that is not OK the status of that
  answer with the body \<open>{error: "Spawn failed"}\<close> (status 500 when the answer's status
  allows no such response: below 200, above 599, or 304; status 500 also when the request
  fails or an OK answer is not JSON). In particular an answer with status 503 gives status
  503 with \<open>{error: "Spawn failed"}\<close>.
\<close>

theorem sessions_spawn_contract:
  "(body \<noteq> JNull \<and> \<not> truthy (property body ''task'') \<longrightarrow>
      sessions_POST cfg fetch ''spawn'' (Some body) =
        (\<lparr>res_status = 400, res_body = JObject [(''error'', JString ''task required'')]\<rparr>, []))
   \<and> (truthy (property body ''task'') \<longrightarrow>
      (\<exists>req fwd. snd (sessions_POST cfg fetch ''spawn'' (Some body)) = [req]
         \<and> gw_url req = GATEWAY_URL cfg @ ''/api/sessions/spawn'' \<and> gw_method req = ''POST''
         \<and> gw_body req = Some fwd
         \<and> property fwd ''task'' = property body ''task''
         \<and> property fwd ''runTimeoutSeconds'' =
             Some (case property body ''runTimeoutSeconds'' of
                     None \<Rightarrow> JNumber 300 | Some v \<Rightarrow> v)
         \<and> property fwd ''cleanup'' =
             Some (case property body ''cleanup'' of
                     None \<Rightarrow> JString ''keep'' | Some v \<Rightarrow> v)
         \<and> fst (sessions_POST cfg fetch ''spawn'' (Some body)) =
             (case fetch req of
                NetworkError \<Rightarrow>
                  \<lparr>res_status = 500, res_body = error_body ''Request failed''\<rparr>
              | Response st b \<Rightarrow>
                  if ok st then
                    (case b of
                       None \<Rightarrow>
                         \<lparr>res_status = 500,
                          res_body = error_body ''Request failed''\<rparr>
                     | Some data \<Rightarrow> \<lparr>res_status = 200, res_body = data\<rparr>)
                  else if st < 200 \<or> 599 < st \<or> st = 304
                  then \<lparr>res_status = 500,
                        res_body = error_body ''Request failed''\<rparr>
                  else \<lparr>res_status = st, res_body = error_body ''Spawn failed''\<rparr>)
         \<and> (\<forall>b. fetch req = Response 503 b \<longrightarrow>
               fst (sessions_POST cfg fetch ''spawn'' (Some body)) =
                 \<lparr>res_status = 503,
                  res_body = JObject [(''error'', JString ''Spawn failed'')]\<rparr>)))"
proof (intro conjI impI)
  assume "body \<noteq> JNull \<and> \<not> truthy (property body ''task'')"
  then show "sessions_POST cfg fetch ''spawn'' (Some body) =
        (\<lparr>res_status = 400, res_body = JObject [(''error'', JString ''task required'')]\<rparr>, [])"
    by (simp add: sessions_POST_def response_defs Let_def)
next
  assume a: "truthy (property body ''task'')"
  let ?fwd = "stringify_object
         [(''task'', property body ''task''), (''agentId'', property body ''agentId''),
          (''label'', property body ''label''), (''model'', property body ''model''),
          (''thinking'', property body ''thinking''),
          (''runTimeoutSeconds'',
             with_default (property body ''runTimeoutSeconds'') (JNumber 300)),
          (''cleanup'', with_default (property body ''cleanup'') (JString ''keep''))]"
  let ?req = "\<lparr>gw_url = GATEWAY_URL cfg @ ''/api/sessions/spawn'', gw_query = [],
       gw_method = ''POST'', gw_cache = None, gw_headers = getHeaders cfg,
       gw_body = Some ?fwd\<rparr>"
  let ?res = "fst (sessions_POST cfg fetch ''spawn'' (Some body))"
  have sent: "snd (sessions_POST cfg fetch ''spawn'' (Some body)) = [?req]"
    using a by (rule sessions_POST_spawn_sent)
  have props: "property ?fwd ''task'' = property body ''task''"
      "property ?fwd ''runTimeoutSeconds'' =
         Some (case property body ''runTimeoutSeconds'' of None \<Rightarrow> JNumber 300 | Some v \<Rightarrow> v)"
      "property ?fwd ''cleanup'' =
         Some (case property body ''cleanup'' of None \<Rightarrow> JString ''keep'' | Some v \<Rightarrow> v)"
    by (simp_all add: property_stringify_object with_default_def split: option.splits)
  have response: "?res =
             (case fetch ?req of
                NetworkError \<Rightarrow>
                  \<lparr>res_status = 500, res_body = error_body ''Request failed''\<rparr>
              | Response st b \<Rightarrow>
                  if ok st then
                    (case b of
                       None \<Rightarrow>
                         \<lparr>res_status = 500,
                          res_body = error_body ''Request failed''\<rparr>
                     | Some data \<Rightarrow> \<lparr>res_status = 200, res_body = data\<rparr>)
                  else if st < 200 \<or> 599 < st \<or> st = 304
                  then \<lparr>res_status = 500,
                        res_body = error_body ''Request failed''\<rparr>
                  else \<lparr>res_status = st, res_body = error_body ''Spawn failed''\<rparr>)"
    using sessions_POST_spawn_response [OF a, of cfg fetch] sent by simp
  have unavailable: "\<forall>b. fetch ?req = Response 503 b \<longrightarrow>
      ?res = \<lparr>res_status = 503, res_body = JObject [(''error'', JString ''Spawn failed'')]\<rparr>"
    using response by (simp add: ok_def error_body_def)
  show "\<exists>req fwd. snd (sessions_POST cfg fetch ''spawn'' (Some body)) = [req]
         \<and> gw_url req = GATEWAY_URL cfg @ ''/api/sessions/spawn'' \<and> gw_method req = ''POST''
         \<and> gw_body req = Some fwd
         \<and> property fwd ''task'' = property body ''task''
         \<and> property fwd ''runTimeoutSeconds'' =
             Some (case property body ''runTimeoutSeconds'' of
                     None \<Rightarrow> JNumber 300 | Some v \<Rightarrow> v)
         \<and> property fwd ''cleanup'' =
             Some (case property body ''cleanup'' of
                     None \<Rightarrow> JString ''keep'' | Some v \<Rightarrow> v)
         \<and> fst (sessions_POST cfg fetch ''spawn'' (Some body)) =
             (case fetch req of
                NetworkError \<Rightarrow>
                  \<lparr>res_status = 500, res_body = error_body ''Request failed''\<rparr>
              | Response st b \<Rightarrow>
                  if ok st then
                    (case b of
                       None \<Rightarrow>
                         \<lparr>res_status = 500,
                          res_body = error_body ''Request failed''\<rparr>
                     | Some data \<Rightarrow> \<lparr>res_status = 200, res_body = data\<rparr>)
                  else if st < 200 \<or> 599 < st \<or> st = 304
                  then \<lparr>res_status = 500,
                        res_body = error_body ''Request failed''\<rparr>
                  else \<lparr>res_status = st, res_body = error_body ''Spawn failed''\<rparr>)
         \<and> (\<forall>b. fetch req = Response 503 b \<longrightarrow>
               fst (sessions_POST cfg fetch ''spawn'' (Some body)) =
                 \<lparr>res_status = 503,
                  res_body = JObject [(''error'', JString ''Spawn failed'')]\<rparr>)"
    apply (rule exI [of _ ?req], rule exI [of _ ?fwd])
    using sent props response unavailable apply simp
    done
qed

text \<open>
  C7 at concrete inputs: a body with only a label is answered 400 with nothing sent. A body
  with only a task goes to the gateway with the two defaults; a gateway that answers 503
  gives 503, one that answers 429 gives 429, one that answers 304 gives 500, and one that
  answers 200 with \<open>{ok: true}\<close> gives that JSON: the status returned is the gateway's own.
\<close>

theorem sessions_spawn_contract_witness:
  "JObject [(''label'', JString ''l'')] \<noteq> JNull
   \<and> \<not> truthy (property (JObject [(''label'', JString ''l'')]) ''task'')
   \<and> sessions_POST (config_of_env None None) (\<lambda>req. Response 503 None) ''spawn''
        (Some (JObject [(''label'', JString ''l'')]))
      = (\<lparr>res_status = 400, res_body = JObject [(''error'', JString ''task required'')]\<rparr>, [])
   \<and> truthy (property (JObject [(''task'', JString ''t'')]) ''task'')
   \<and> map gw_body (snd (sessions_POST (config_of_env None None) (\<lambda>req. Response 503 None)
        ''spawn'' (Some (JObject [(''task'', JString ''t'')]))))
      = [Some (JObject [(''task'', JString ''t''), (''runTimeoutSeconds'', JNumber 300),
                        (''cleanup'', JString ''keep'')])]
   \<and> fst (sessions_POST (config_of_env None None) (\<lambda>req. Response 503 None) ''spawn''
        (Some (JObject [(''task'', JString ''t'')])))
      = \<lparr>res_status = 503, res_body = JObject [(''error'', JString ''Spawn failed'')]\<rparr>
   \<and> fst (sessions_POST (config_of_env None None) (\<lambda>req. Response 429 None) ''spawn''
        (Some (JObject [(''task'', JString ''t'')])))
      = \<lparr>res_status = 429, res_body = JObject [(''error'', JString ''Spawn failed'')]\<rparr>
   \<and> fst (sessions_POST (config_of_env None None) (\<lambda>req. Response 304 None) ''spawn''
        (Some (JObject [(''task'', JString ''t'')])))
      = \<lparr>res_status = 500, res_body = JObject [(''error'', JString ''Request failed'')]\<rparr>
   \<and> fst (sessions_POST (config_of_env None None)
        (\<lambda>req. Response 200 (Some (JObject [(''ok'', JBool True)]))) ''spawn''
        (Some (JObject [(''task'', JString ''t'')])))
      = \<lparr>res_status = 200, res_body = JObject [(''ok'', JBool True)]\<rparr>"
proof -
  let ?cfg = "config_of_env None None"
  let ?labelled = "JObject [(''label'', JString ''l'')]"
  let ?tasked = "JObject [(''task'', JString ''t'')]"
  have no_task: "?labelled \<noteq> JNull \<and> \<not> truthy (property ?labelled ''task'')"
    and task: "truthy (property ?tasked ''task'')"
    by simp_all
  from no_task sessions_spawn_contract [of ?labelled ?cfg "\<lambda>req. Response 503 None"]
  have 1: "sessions_POST ?cfg (\<lambda>req. Response 503 None) ''spawn'' (Some ?labelled)
      = (\<lparr>res_status = 400, res_body = JObject [(''error'', JString ''task required'')]\<rparr>, [])"
    by blast
  from task sessions_spawn_contract [of ?tasked ?cfg "\<lambda>req. Response 503 None"]
  obtain req fwd where
    sent: "snd (sessions_POST ?cfg (\<lambda>req. Response 503 None) ''spawn'' (Some ?tasked)) = [req]"
    and body: "gw_body req = Some fwd"
    and unavailable: "\<forall>b. (\<lambda>req. Response 503 None) req = Response 503 b \<longrightarrow>
      fst (sessions_POST ?cfg (\<lambda>req. Response 503 None) ''spawn'' (Some ?tasked)) =
        \<lparr>res_status = 503, res_body = JObject [(''error'', JString ''Spawn failed'')]\<rparr>"
    by blast
  from unavailable
  have 2: "fst (sessions_POST ?cfg (\<lambda>req. Response 503 None) ''spawn'' (Some ?tasked)) =
        \<lparr>res_status = 503, res_body = JObject [(''error'', JString ''Spawn failed'')]\<rparr>"
    by simp
  have 3: "map gw_body (snd (sessions_POST ?cfg (\<lambda>req. Response 503 None) ''spawn''
        (Some ?tasked)))
      = [Some (JObject [(''task'', JString ''t''), (''runTimeoutSeconds'', JNumber 300),
                        (''cleanup'', JString ''keep'')])]"
    by (simp add: sessions_POST_def Let_def stringify_object_def List.map_filter_simps
          with_default_def ok_def)
  from task sessions_spawn_contract [of ?tasked ?cfg "\<lambda>req. Response 429 None"]
  have 4: "fst (sessions_POST ?cfg (\<lambda>req. Response 429 None) ''spawn'' (Some ?tasked)) =
        \<lparr>res_status = 429, res_body = JObject [(''error'', JString ''Spawn failed'')]\<rparr>"
    by (auto simp: ok_def error_body_def)
  from task sessions_spawn_contract [of ?tasked ?cfg "\<lambda>req. Response 304 None"]
  have 5: "fst (sessions_POST ?cfg (\<lambda>req. Response 304 None) ''spawn'' (Some ?tasked)) =
        \<lparr>res_status = 500, res_body = JObject [(''error'', JString ''Request failed'')]\<rparr>"
    by (auto simp: ok_def error_body_def)
  from task sessions_spawn_contract [of ?tasked ?cfg
      "\<lambda>req. Response 200 (Some (JObject [(''ok'', JBool True)]))"]
  have 6: "fst (sessions_POST ?cfg (\<lambda>req. Response 200 (Some (JObject [(''ok'', JBool True)])))
        ''spawn'' (Some ?tasked)) =
        \<lparr>res_status = 200, res_body = JObject [(''ok'', JBool True)]\<rparr>"
    by (auto simp: ok_def error_body_def)
  from no_task task 1 2 3 4 5 6 show ?thesis by blast
qed

text \<open>
  C8: for every POST to the direct send route, a request goes to the gateway only if the
  body has a message and at least one of \<open>agentId\<close> and \<open>sessionKey\<close>; if the message is
  missing, or both \<open>agentId\<close> and \<open>sessionKey\<close> are missing (absent or falsy), the route
  returns status 400 with a body that names what is required, and sends nothing to the
  gateway.
\<close>

theorem send_route_validation:
  "(snd (send_POST cfg fetch request_json) \<noteq> [] \<longrightarrow>
      (\<exists>b. request_json = Some b \<and> truthy (property b ''message'')
         \<and> (truthy (property b ''agentId'') \<or> truthy (property b ''sessionKey''))))
   \<and> (body \<noteq> JNull \<and> \<not> truthy (property body ''message'') \<longrightarrow>
        send_POST cfg fetch (Some body) =
          (\<lparr>res_status = 400,
            res_body = JObject [(''error'', JString ''Message is required'')]\<rparr>, []))
   \<and> (truthy (property body ''message'') \<and> \<not> truthy (property body ''agentId'')
        \<and> \<not> truthy (property body ''sessionKey'') \<longrightarrow>
        send_POST cfg fetch (Some body) =
          (\<lparr>res_status = 400,
            res_body = JObject [(''error'',
              JString ''Either agentId or sessionKey is required'')]\<rparr>, []))"
proof (intro conjI impI)
  assume "snd (send_POST cfg fetch request_json) \<noteq> []"
  then show "\<exists>b. request_json = Some b \<and> truthy (property b ''message'')
         \<and> (truthy (property b ''agentId'') \<or> truthy (property b ''sessionKey''))"
    by (simp add: send_POST_sent)
next
  assume "body \<noteq> JNull \<and> \<not> truthy (property body ''message'')"
  then show "send_POST cfg fetch (Some body) =
          (\<lparr>res_status = 400,
            res_body = JObject [(''error'', JString ''Message is required'')]\<rparr>, [])"
    by (simp add: send_POST_def response_defs Let_def)
next
  assume a: "truthy (property body ''message'') \<and> \<not> truthy (property body ''agentId'')
        \<and> \<not> truthy (property body ''sessionKey'')"
  then obtain ps where "body = JObject ps" by (auto dest: truthy_property_object)
  with a show "send_POST cfg fetch (Some body) =
          (\<lparr>res_status = 400,
            res_body = JObject [(''error'',
              JString ''Either agentId or sessionKey is required'')]\<rparr>, [])"
    by (simp add: send_POST_def response_defs Let_def)
qed

text \<open>
  C8 at concrete inputs: a body with a message and an agent id is forwarded; a body with
  only an agent id, and a body with only a message, are answered with status 400.
\<close>

theorem send_route_validation_witness:
  "snd (send_POST (config_of_env None None) (\<lambda>req. Response 200 (Some (JObject [])))
          (Some (JObject [(''message'', JString ''hi''), (''agentId'', JString ''a'')]))) \<noteq> []
   \<and> truthy (property (JObject [(''message'', JString ''hi''), (''agentId'', JString ''a'')])
        ''message'')
   \<and> truthy (property (JObject [(''message'', JString ''hi''), (''agentId'', JString ''a'')])
        ''agentId'')
   \<and> JObject [(''agentId'', JString ''a'')] \<noteq> JNull
   \<and> \<not> truthy (property (JObject [(''agentId'', JString ''a'')]) ''message'')
   \<and> send_POST (config_of_env None None) (\<lambda>req. Response 200 (Some (JObject [])))
        (Some (JObject [(''agentId'', JString ''a'')]))
      = (\<lparr>res_status = 400,
          res_body = JObject [(''error'', JString ''Message is required'')]\<rparr>, [])
   \<and> truthy (property (JObject [(''message'', JString ''hi'')]) ''message'')
   \<and> \<not> truthy (property (JObject [(''message'', JString ''hi'')]) ''agentId'')
   \<and> \<not> truthy (property (JObject [(''message'', JString ''hi'')]) ''sessionKey'')
   \<and> send_POST (config_of_env None None) (\<lambda>req. Response 200 (Some (JObject [])))
        (Some (JObject [(''message'', JString ''hi'')]))
      = (\<lparr>res_status = 400,
          res_body = JObject [(''error'',
            JString ''Either agentId or sessionKey is required'')]\<rparr>, [])"
proof -
  let ?cfg = "config_of_env None None"
  let ?gw = "\<lambda>req::gateway_request. Response 200 (Some (JObject []))"
  let ?full = "JObject [(''message'', JString ''hi''), (''agentId'', JString ''a'')]"
  let ?agent = "JObject [(''agentId'', JString ''a'')]"
  let ?msg = "JObject [(''message'', JString ''hi'')]"
  have sent: "snd (send_POST ?cfg ?gw (Some ?full)) \<noteq> []"
    by (simp add: send_POST_def Let_def ok_def)
  from sent send_route_validation [of ?cfg ?gw "Some ?full" ?agent]
  have 1: "truthy (property ?full ''message'') \<and> truthy (property ?full ''agentId'')"
    by simp
  have no_message: "?agent \<noteq> JNull \<and> \<not> truthy (property ?agent ''message'')"
    by simp
  from no_message send_route_validation [of ?cfg ?gw "None" ?agent]
  have 2: "send_POST ?cfg ?gw (Some ?agent)
      = (\<lparr>res_status = 400,
          res_body = JObject [(''error'', JString ''Message is required'')]\<rparr>, [])"
    by blast
  have no_ids: "truthy (property ?msg ''message'') \<and> \<not> truthy (property ?msg ''agentId'')
      \<and> \<not> truthy (property ?msg ''sessionKey'')"
    by simp
  from no_ids send_route_validation [of ?cfg ?gw "None" ?msg]
  have 3: "send_POST ?cfg ?gw (Some ?msg)
      = (\<lparr>res_status = 400,
          res_body = JObject [(''error'',
            JString ''Either agentId or sessionKey is required'')]\<rparr>, [])"
    by blast
  from sent 1 no_message 2 no_ids 3 show ?thesis by blast
qed

text \<open>
  C10: for every POST to the \<open>send\<close> action of the sessions proxy whose body has a message
  but neither \<open>sessionKey\<close> nor \<open>agentId\<close>, the proxy does not answer with a status 400 of its
  own: it sends one request to \<open>/api/sessions/send\<close> of the gateway, whose body has the
  message and the label as given and neither of the two identifiers, and its response is
  decided by the gateway's answer (the JSON of an OK answer with status 200, the status of an
  answer that is not OK with \<open>{error: "Send failed"}\<close>, status 500 for an exception). The
  direct send route answers the same body with status 400: only that route requires an
  identifier.
\<close>

theorem sessions_send_without_identifiers:
  assumes "truthy (property body ''message'')"
    and "property body ''sessionKey'' = None" and "property body ''agentId'' = None"
  shows "\<exists>req fwd.
      snd (sessions_POST cfg fetch ''send'' (Some body)) = [req]
      \<and> gw_url req = GATEWAY_URL cfg @ ''/api/sessions/send'' \<and> gw_method req = ''POST''
      \<and> gw_body req = Some fwd
      \<and> property fwd ''sessionKey'' = None \<and> property fwd ''agentId'' = None
      \<and> property fwd ''message'' = property body ''message''
      \<and> property fwd ''label'' = property body ''label''
      \<and> fst (sessions_POST cfg fetch ''send'' (Some body)) =
          (case fetch req of
             NetworkError \<Rightarrow> \<lparr>res_status = 500, res_body = error_body ''Request failed''\<rparr>
           | Response st b \<Rightarrow>
               if ok st then
                 (case b of
                    None \<Rightarrow> \<lparr>res_status = 500, res_body = error_body ''Request failed''\<rparr>
                  | Some data \<Rightarrow> \<lparr>res_status = 200, res_body = data\<rparr>)
               else if st < 200 \<or> 599 < st \<or> st \<in> {204, 205, 304}
               then \<lparr>res_status = 500, res_body = error_body ''Request failed''\<rparr>
               else \<lparr>res_status = st, res_body = error_body ''Send failed''\<rparr>)
      \<and> send_POST cfg fetch (Some body) =
          (\<lparr>res_status = 400,
            res_body = error_body ''Either agentId or sessionKey is required''\<rparr>, [])"
proof -
  let ?fwd = "stringify_object
         [(''sessionKey'', property body ''sessionKey''),
          (''agentId'', property body ''agentId''),
          (''label'', property body ''label''), (''message'', property body ''message''),
          (''timeoutSeconds'',
             with_default (property body ''timeoutSeconds'') (JNumber 120))]"
  let ?req = "\<lparr>gw_url = GATEWAY_URL cfg @ ''/api/sessions/send'', gw_query = [],
       gw_method = ''POST'', gw_cache = None, gw_headers = getHeaders cfg,
       gw_body = Some ?fwd\<rparr>"
  from assms(1) obtain ps where body: "body = JObject ps"
    by (auto dest: truthy_property_object)
  have sent: "snd (sessions_POST cfg fetch ''send'' (Some body)) = [?req]"
    using assms(1) by (rule sessions_POST_send_sent)
  have props: "property ?fwd ''sessionKey'' = None" "property ?fwd ''agentId'' = None"
      "property ?fwd ''message'' = property body ''message''"
      "property ?fwd ''label'' = property body ''label''"
    using assms(2,3) by (simp_all add: property_stringify_object split: option.splits)
  have response: "fst (sessions_POST cfg fetch ''send'' (Some body)) =
          (case fetch ?req of
             NetworkError \<Rightarrow> \<lparr>res_status = 500, res_body = error_body ''Request failed''\<rparr>
           | Response st b \<Rightarrow>
               if ok st then
                 (case b of
                    None \<Rightarrow> \<lparr>res_status = 500, res_body = error_body ''Request failed''\<rparr>
                  | Some data \<Rightarrow> \<lparr>res_status = 200, res_body = data\<rparr>)
               else if st < 200 \<or> 599 < st \<or> st \<in> {204, 205, 304}
               then \<lparr>res_status = 500, res_body = error_body ''Request failed''\<rparr>
               else \<lparr>res_status = st, res_body = error_body ''Send failed''\<rparr>)"
    using sessions_POST_send_response [OF assms(1), of cfg fetch] sent by simp
  have direct: "send_POST cfg fetch (Some body) =
          (\<lparr>res_status = 400,
            res_body = error_body ''Either agentId or sessionKey is required''\<rparr>, [])"
    using assms by (simp add: body send_POST_def response_defs Let_def)
  from sent props response direct show ?thesis by simp
qed

text \<open>
  C10 at a concrete input: a body with a message and a label, sent to a gateway that answers
  200 with \<open>{response: "ok"}\<close>: the proxy forwards message, label and the default timeout,
  and returns the gateway's JSON; the direct route answers 400.
\<close>

theorem sessions_send_without_identifiers_witness:
  "truthy (property (JObject [(''message'', JString ''hi''), (''label'', JString ''l'')])
      ''message'')
   \<and> property (JObject [(''message'', JString ''hi''), (''label'', JString ''l'')])
        ''sessionKey'' = None
   \<and> property (JObject [(''message'', JString ''hi''), (''label'', JString ''l'')])
        ''agentId'' = None
   \<and> map gw_body (snd (sessions_POST (config_of_env None None)
        (\<lambda>req. Response 200 (Some (JObject [(''response'', JString ''ok'')]))) ''send''
        (Some (JObject [(''message'', JString ''hi''), (''label'', JString ''l'')]))))
      = [Some (JObject [(''label'', JString ''l''), (''message'', JString ''hi''),
                        (''timeoutSeconds'', JNumber 120)])]
   \<and> fst (sessions_POST (config_of_env None None)
        (\<lambda>req. Response 200 (Some (JObject [(''response'', JString ''ok'')]))) ''send''
        (Some (JObject [(''message'', JString ''hi''), (''label'', JString ''l'')])))
      = \<lparr>res_status = 200, res_body = JObject [(''response'', JString ''ok'')]\<rparr>
   \<and> res_status (fst (send_POST (config_of_env None None)
        (\<lambda>req. Response 200 (Some (JObject [(''response'', JString ''ok'')])))
        (Some (JObject [(''message'', JString ''hi''), (''label'', JString ''l'')])))) = 400"
proof -
  let ?body = "JObject [(''message'', JString ''hi''), (''label'', JString ''l'')]"
  let ?cfg = "config_of_env None None"
  let ?gw = "\<lambda>req::gateway_request. Response 200 (Some (JObject [(''response'', JString ''ok'')]))"
  have h: "truthy (property ?body ''message'')" "property ?body ''sessionKey'' = None"
    "property ?body ''agentId'' = None"
    by simp_all
  from sessions_send_without_identifiers [OF h, of ?cfg ?gw]
  have 1: "fst (sessions_POST ?cfg ?gw ''send'' (Some ?body))
      = \<lparr>res_status = 200, res_body = JObject [(''response'', JString ''ok'')]\<rparr>"
    and 2: "res_status (fst (send_POST ?cfg ?gw (Some ?body))) = 400"
    by (auto simp: ok_def)
  have 3: "map gw_body (snd (sessions_POST ?cfg ?gw ''send'' (Some ?body)))
      = [Some (JObject [(''label'', JString ''l''), (''message'', JString ''hi''),
                        (''timeoutSeconds'', JNumber 120)])]"
    by (simp add: sessions_POST_def Let_def stringify_object_def List.map_filter_simps
          with_default_def ok_def)
  from h 1 2 3 show ?thesis by blast
qed

end
